theory Spec2Isabelle
  imports Complex_Main
begin

section \<open>Common modelling conventions\<close>

text \<open>
  Python's unbounded integers are \<open>int\<close>.  A Python float is the real number that the
  double denotes.  Where floats are only compared, or where a claim does not depend on the
  last bit, float arithmetic is idealised as real arithmetic.  Where the code truncates a
  float product or quotient to an integer (the order derivation and the balance check), the
  last bit decides the result, and the arithmetic is rounded to the nearest double by
  \<open>fl\<close> below.
  A \<open>datetime\<close> is the number of seconds since the epoch (UTC); the several readings of
  the clock that one operation makes are taken at the same instant, which the caller
  passes in.  Values drawn from \<open>uuid4\<close> and the measured latency are inputs as well.
\<close>

type_synonym datetime = int

definition timedelta_days :: "int \<Rightarrow> int" where
  "timedelta_days d = d * 86400"

definition hour_of :: "datetime \<Rightarrow> int" where
  "hour_of t = (t div 3600) mod 24"

text \<open>\<open>int(x)\<close> on a float truncates towards zero.\<close>

definition py_int :: "real \<Rightarrow> int" where
  "py_int x = (if 0 \<le> x then \<lfloor>x\<rfloor> else \<lceil>x\<rceil>)"

text \<open>\<open>round(x)\<close> rounds to the nearest integer, a tie going to the even neighbour.\<close>

definition py_round :: "real \<Rightarrow> int" where
  "py_round x =
     (let f = \<lfloor>x\<rfloor>; d = x - of_int f
      in if d < 1 / 2 then f else if 1 / 2 < d then f + 1
         else if even f then f else f + 1)"

definition py_round1 :: "real \<Rightarrow> real" where
  "py_round1 x = of_int (py_round (x * 10)) / 10"

text \<open>
  Rounding of a real number to the nearest IEEE 754 double, a tie going to the even
  significand: with \<open>e\<close> the binary exponent of \<open>x\<close> (at least \<open>-1022\<close>, below which doubles are
  subnormal), doubles are the integer multiples of \<open>2 ^ (e - 52)\<close>.  A float literal such as
  \<open>0.58\<close> denotes \<open>fl (58 / 100)\<close>, and a float operation returns \<open>fl\<close> of the exact result.
  Results beyond the largest double (infinities) are outside the model.
\<close>

definition fl :: "real \<Rightarrow> real" where
  "fl x =
     (if x = 0 then 0
      else let e = max \<lfloor>log 2 \<bar>x\<bar>\<rfloor> (- 1022);
               u = 2 powr real_of_int (e - 52)
           in real_of_int (py_round (x / u)) * u)"

datatype py_error = TypeError | KeyError | ZeroDivisionError | IndexError

text \<open>
  Values stored in the \<open>details\<close> dictionaries, and the pieces of an f-string: literal
  text, or a value with its format specification.
\<close>

datatype pyval = VBool bool | VInt int | VFloat real | VStr string | VStrs "string list"

datatype piece = Lit string | Fmt string pyval

type_synonym fstring = "piece list"

text \<open>The UTF-8 encodings of the signs U+2265 and U+2264 used in the reasons.\<close>

definition ge_sign :: string where
  "ge_sign = [CHR 0xE2, CHR 0x89, CHR 0xA5]"

definition le_sign :: string where
  "le_sign = [CHR 0xE2, CHR 0x89, CHR 0xA4]"

section \<open>Governance bridge (governance_bridge.py)\<close>

subsection \<open>Data\<close>

record PredictorSignal =
  signal_id :: string
  market_slug :: string
  market_title :: string
  direction :: string
  conviction :: real
  num_traders :: int
  total_size :: real
  avg_entry_price :: real
  current_price :: real
  expected_edge :: real
  entry_quality :: string
  ars_score :: real
  recommended_size :: real
  traders :: "string list"
  generated_at :: string

datatype GovernanceDecision = APPROVED | BLOCKED | REQUIRES_APPROVAL | KILL_SWITCHED

fun decision_value :: "GovernanceDecision \<Rightarrow> string" where
  "decision_value APPROVED = ''approved''"
| "decision_value BLOCKED = ''blocked''"
| "decision_value REQUIRES_APPROVAL = ''requires_approval''"
| "decision_value KILL_SWITCHED = ''kill_switched''"

record RuleEvaluation =
  rule_id :: string
  rule_name :: string
  rule_type :: string
  passed :: bool
  reason :: fstring
  details :: "(string \<times> pyval) list"

text \<open>
  The order request is a dictionary with fixed keys and one key computed from the
  direction (\<open>"<direction>_price"\<close>, which cannot coincide with another key); the computed
  key is the field \<open>price_key\<close> and its value the field \<open>price\<close>.
\<close>

record OrderRequest =
  ticker :: string
  side :: string
  action :: string
  count :: int
  order_type :: string
  price_key :: string
  price :: int
  total_cost_cents :: int
  order_signal_id :: string

record ExecutionResult =
  status :: string
  order_id :: string
  filled_at :: datetime
  cost_cents :: int

record WalletState =
  ws_current_balance :: real
  ws_peak_balance :: real
  ws_total_pnl :: real
  ws_daily_spend_cents :: int
  ws_weekly_spend_cents :: int
  ws_drawdown_pct :: real
  ws_consecutive_losses :: int
  ws_total_transactions :: int

record GovernanceResult =
  evaluation_id :: string
  signal :: PredictorSignal
  decision :: GovernanceDecision
  rules_evaluated :: "RuleEvaluation list"
  order_request :: "OrderRequest option"
  execution_result :: "ExecutionResult option"
  wallet_state :: WalletState
  timestamp :: datetime
  latency_ms :: real

record AuditEvaluation =
  ae_evaluation_id :: string
  ae_timestamp :: datetime
  ae_signal_id :: string
  ae_market :: string
  ae_direction :: string
  ae_decision :: string
  ae_rules_checked :: int
  ae_rules_failed :: int
  ae_blocking_rules :: "string list"
  ae_order_value_cents :: "int option"
  ae_latency_ms :: real

datatype AuditEntry =
  EvaluationEntry AuditEvaluation
| EventEntry string datetime string string string

definition to_audit_entry :: "GovernanceResult \<Rightarrow> AuditEvaluation" where
  "to_audit_entry r =
     \<lparr> ae_evaluation_id = evaluation_id r,
       ae_timestamp = timestamp r,
       ae_signal_id = signal_id (signal r),
       ae_market = market_title (signal r),
       ae_direction = direction (signal r),
       ae_decision = decision_value (decision r),
       ae_rules_checked = int (length (rules_evaluated r)),
       ae_rules_failed = int (length (filter (\<lambda>e. \<not> passed e) (rules_evaluated r))),
       ae_blocking_rules = map rule_name (filter (\<lambda>e. \<not> passed e) (rules_evaluated r)),
       ae_order_value_cents = map_option total_cost_cents (order_request r),
       ae_latency_ms = latency_ms r \<rparr>"

subsection \<open>Spend and position tracker\<close>

record Transaction =
  tx_timestamp :: datetime
  amount_cents :: int
  pnl :: real

record SpendTracker =
  transactions :: "Transaction list"
  peak_balance :: real
  current_balance :: real
  total_pnl :: real
  consecutive_losses :: int

definition new_tracker :: SpendTracker where
  "new_tracker =
     \<lparr> transactions = [], peak_balance = 0, current_balance = 0, total_pnl = 0,
       consecutive_losses = 0 \<rparr>"

definition record_trade :: "SpendTracker \<Rightarrow> datetime \<Rightarrow> int \<Rightarrow> real \<Rightarrow> SpendTracker" where
  "record_trade t now amount p =
     (let t1 = t\<lparr> transactions :=
                    transactions t @ [\<lparr> tx_timestamp = now, amount_cents = amount, pnl = p \<rparr>] \<rparr>;
          t2 = t1\<lparr> current_balance := current_balance t1 - real_of_int amount / 100 \<rparr>;
          t3 = t2\<lparr> total_pnl := total_pnl t2 + p \<rparr>;
          t4 = (if p < 0 then t3\<lparr> consecutive_losses := consecutive_losses t3 + 1 \<rparr>
                else t3\<lparr> consecutive_losses := 0 \<rparr>)
      in if peak_balance t4 < current_balance t4
         then t4\<lparr> peak_balance := current_balance t4 \<rparr> else t4)"

definition get_spend_since :: "SpendTracker \<Rightarrow> datetime \<Rightarrow> int" where
  "get_spend_since t since =
     sum_list (map amount_cents (filter (\<lambda>x. since \<le> tx_timestamp x) (transactions t)))"

definition get_daily_spend :: "SpendTracker \<Rightarrow> datetime \<Rightarrow> int" where
  "get_daily_spend t now = get_spend_since t (now - timedelta_days 1)"

definition get_weekly_spend :: "SpendTracker \<Rightarrow> datetime \<Rightarrow> int" where
  "get_weekly_spend t now = get_spend_since t (now - timedelta_days 7)"

definition get_drawdown :: "SpendTracker \<Rightarrow> real" where
  "get_drawdown t =
     (if peak_balance t \<le> 0 then 0
      else (peak_balance t - current_balance t) / peak_balance t)"

definition get_state :: "SpendTracker \<Rightarrow> datetime \<Rightarrow> WalletState" where
  "get_state t now =
     \<lparr> ws_current_balance = current_balance t,
       ws_peak_balance = peak_balance t,
       ws_total_pnl = total_pnl t,
       ws_daily_spend_cents = get_daily_spend t now,
       ws_weekly_spend_cents = get_weekly_spend t now,
       ws_drawdown_pct = py_round1 (get_drawdown t * 100),
       ws_consecutive_losses = consecutive_losses t,
       ws_total_transactions = int (length (transactions t)) \<rparr>"

subsection \<open>Governance engine\<close>

text \<open>
  The configuration dictionary, with every key the engine reads present; the two keys of
  \<open>trading_hours\<close> are the fields \<open>trading_hours_start\<close> and \<open>trading_hours_end\<close>.
\<close>

record Config =
  initial_balance :: real
  max_per_trade_cents :: int
  max_daily_spend_cents :: int
  max_weekly_spend_cents :: int
  max_position_contracts :: int
  min_entry_quality :: string
  min_ars_score :: real
  min_conviction :: real
  allowed_signal_strengths :: "string list"
  drawdown_kill_switch_pct :: real
  consecutive_loss_limit :: int
  trading_hours_start :: int
  trading_hours_end :: int
  blocked_categories :: "string list"

definition default_config :: Config where
  "default_config =
     \<lparr> initial_balance = 500,
       max_per_trade_cents = 2000,
       max_daily_spend_cents = 5000,
       max_weekly_spend_cents = 15000,
       max_position_contracts = 50,
       min_entry_quality = ''fair'',
       min_ars_score = 3 / 10,
       min_conviction = 5 / 100,
       allowed_signal_strengths = [''good'', ''fair''],
       drawdown_kill_switch_pct = 20 / 100,
       consecutive_loss_limit = 5,
       trading_hours_start = 6,
       trading_hours_end = 23,
       blocked_categories = [] \<rparr>"

record GovernanceEngine =
  config :: Config
  spend_tracker :: SpendTracker
  audit_log :: "AuditEntry list"
  kill_switch_active :: bool
  kill_switch_reason :: fstring
  total_signals_processed :: int
  total_blocked :: int
  total_approved :: int

definition new_engine :: "Config option \<Rightarrow> GovernanceEngine" where
  "new_engine c =
     (let cfg = (case c of None \<Rightarrow> default_config | Some c' \<Rightarrow> c')
      in \<lparr> config = cfg,
           spend_tracker = new_tracker\<lparr> current_balance := initial_balance cfg,
                                         peak_balance := initial_balance cfg \<rparr>,
           audit_log = [],
           kill_switch_active = False,
           kill_switch_reason = [],
           total_signals_processed = 0,
           total_blocked = 0,
           total_approved = 0 \<rparr>)"

text \<open>The clock reading, the identifier drawn and the latency measured by one operation.\<close>

record Env =
  now :: datetime
  fresh_uuid :: string
  measured_latency_ms :: real

subsection \<open>Rule evaluators\<close>

definition check_kill_switch :: "GovernanceEngine \<Rightarrow> RuleEvaluation" where
  "check_kill_switch eng =
     \<lparr> rule_id = ''kill_switch'',
       rule_name = ''Kill Switch'',
       rule_type = ''KILL_SWITCH'',
       passed = (\<not> kill_switch_active eng),
       reason = (if kill_switch_active eng then kill_switch_reason eng
                 else [Lit ''Kill switch not active'']),
       details = [(''active'', VBool (kill_switch_active eng))] \<rparr>"

definition check_entry_quality :: "GovernanceEngine \<Rightarrow> PredictorSignal \<Rightarrow> RuleEvaluation" where
  "check_entry_quality eng sg =
     (let allowed = allowed_signal_strengths (config eng);
          ok = (entry_quality sg \<in> set allowed)
      in \<lparr> rule_id = ''entry_quality_filter'',
           rule_name = ''Entry Quality Filter'',
           rule_type = ''SIGNAL_FILTER'',
           passed = ok,
           reason = [Lit (''Entry quality '' @ [CHR 0x27]), Fmt [] (VStr (entry_quality sg)),
                     Lit ([CHR 0x27] @ '' ''),
                     Lit (if ok then ''is'' else ''not in''), Lit '' allowed: '',
                     Fmt [] (VStrs allowed)],
           details = [(''entry_quality'', VStr (entry_quality sg)),
                      (''allowed'', VStrs allowed)] \<rparr>)"

definition check_ars_score :: "GovernanceEngine \<Rightarrow> PredictorSignal \<Rightarrow> RuleEvaluation" where
  "check_ars_score eng sg =
     (let min_score = min_ars_score (config eng);
          ok = (min_score \<le> ars_score sg)
      in \<lparr> rule_id = ''ars_score_minimum'',
           rule_name = ''ARS Score Minimum'',
           rule_type = ''SIGNAL_FILTER'',
           passed = ok,
           reason = [Lit ''ARS score '', Fmt ''.2f'' (VFloat (ars_score sg)), Lit '' '',
                     Lit (if ok then ge_sign else ''<''), Lit '' minimum '',
                     Fmt [] (VFloat min_score)],
           details = [(''ars_score'', VFloat (ars_score sg)), (''minimum'', VFloat min_score)] \<rparr>)"

definition check_conviction :: "GovernanceEngine \<Rightarrow> PredictorSignal \<Rightarrow> RuleEvaluation" where
  "check_conviction eng sg =
     (let min_conv = min_conviction (config eng);
          ok = (min_conv \<le> conviction sg)
      in \<lparr> rule_id = ''conviction_minimum'',
           rule_name = ''Trader Conviction Minimum'',
           rule_type = ''SIGNAL_FILTER'',
           passed = ok,
           reason = [Lit ''Conviction '', Fmt ''.0%'' (VFloat (conviction sg)), Lit '' '',
                     Lit (if ok then ge_sign else ''<''), Lit '' minimum '',
                     Fmt ''.0%'' (VFloat min_conv)],
           details = [(''conviction'', VFloat (conviction sg)), (''minimum'', VFloat min_conv)] \<rparr>)"

definition check_per_trade_limit :: "GovernanceEngine \<Rightarrow> int \<Rightarrow> RuleEvaluation" where
  "check_per_trade_limit eng cost =
     (let limit = max_per_trade_cents (config eng);
          ok = (cost \<le> limit)
      in \<lparr> rule_id = ''per_trade_limit'',
           rule_name = ''Per-Trade Spend Limit'',
           rule_type = ''PER_TRANSACTION_LIMIT'',
           passed = ok,
           reason = [Lit ''Trade cost $'', Fmt ''.2f'' (VFloat (real_of_int cost / 100)), Lit '' '',
                     Lit (if ok then le_sign else ''>''), Lit '' limit $'',
                     Fmt ''.2f'' (VFloat (real_of_int limit / 100))],
           details = [(''cost_cents'', VInt cost), (''limit_cents'', VInt limit)] \<rparr>)"

definition check_daily_limit :: "GovernanceEngine \<Rightarrow> datetime \<Rightarrow> int \<Rightarrow> RuleEvaluation" where
  "check_daily_limit eng t cost =
     (let limit = max_daily_spend_cents (config eng);
          current = get_daily_spend (spend_tracker eng) t;
          projected = current + cost;
          ok = (projected \<le> limit)
      in \<lparr> rule_id = ''daily_spend_limit'',
           rule_name = ''Daily Spend Limit'',
           rule_type = ''DAILY_LIMIT'',
           passed = ok,
           reason = [Lit ''Daily spend $'', Fmt ''.2f'' (VFloat (real_of_int projected / 100)),
                     Lit '' '', Lit (if ok then le_sign else ''>''), Lit '' limit $'',
                     Fmt ''.2f'' (VFloat (real_of_int limit / 100)), Lit '' (current: $'',
                     Fmt ''.2f'' (VFloat (real_of_int current / 100)), Lit '')''],
           details = [(''current_cents'', VInt current), (''projected_cents'', VInt projected),
                      (''limit_cents'', VInt limit)] \<rparr>)"

definition check_weekly_limit :: "GovernanceEngine \<Rightarrow> datetime \<Rightarrow> int \<Rightarrow> RuleEvaluation" where
  "check_weekly_limit eng t cost =
     (let limit = max_weekly_spend_cents (config eng);
          current = get_weekly_spend (spend_tracker eng) t;
          projected = current + cost;
          ok = (projected \<le> limit)
      in \<lparr> rule_id = ''weekly_spend_limit'',
           rule_name = ''Weekly Spend Limit'',
           rule_type = ''WEEKLY_LIMIT'',
           passed = ok,
           reason = [Lit ''Weekly spend $'', Fmt ''.2f'' (VFloat (real_of_int projected / 100)),
                     Lit '' '', Lit (if ok then le_sign else ''>''), Lit '' limit $'',
                     Fmt ''.2f'' (VFloat (real_of_int limit / 100))],
           details = [(''current_cents'', VInt current), (''projected_cents'', VInt projected),
                      (''limit_cents'', VInt limit)] \<rparr>)"

text \<open>The drawdown check latches the kill switch when it fails; it returns the engine too.\<close>

definition check_drawdown :: "GovernanceEngine \<Rightarrow> RuleEvaluation \<times> GovernanceEngine" where
  "check_drawdown eng =
     (let threshold = drawdown_kill_switch_pct (config eng);
          current_dd = get_drawdown (spend_tracker eng);
          ok = (current_dd < threshold);
          eng' = (if \<not> ok \<and> \<not> kill_switch_active eng
                  then eng\<lparr> kill_switch_active := True,
                            kill_switch_reason :=
                              [Lit ''Drawdown '', Fmt ''.1%'' (VFloat current_dd),
                               Lit '' exceeded threshold '', Fmt ''.0%'' (VFloat threshold)] \<rparr>
                  else eng)
      in (\<lparr> rule_id = ''drawdown_monitor'',
            rule_name = ''Drawdown Kill Switch'',
            rule_type = ''KILL_SWITCH'',
            passed = ok,
            reason = [Lit ''Drawdown '', Fmt ''.1%'' (VFloat current_dd), Lit '' '',
                      Lit (if ok then ''<'' else ge_sign), Lit '' threshold '',
                      Fmt ''.0%'' (VFloat threshold)],
            details = [(''drawdown'', VFloat current_dd), (''threshold'', VFloat threshold)] \<rparr>,
          eng'))"

definition check_consecutive_losses :: "GovernanceEngine \<Rightarrow> RuleEvaluation" where
  "check_consecutive_losses eng =
     (let limit = consecutive_loss_limit (config eng);
          current = consecutive_losses (spend_tracker eng);
          ok = (current < limit)
      in \<lparr> rule_id = ''consecutive_losses'',
           rule_name = ''Consecutive Loss Limit'',
           rule_type = ''KILL_SWITCH'',
           passed = ok,
           reason = [Fmt [] (VInt current), Lit '' consecutive losses '',
                     Lit (if ok then ''<'' else ge_sign), Lit '' limit of '', Fmt [] (VInt limit)],
           details = [(''consecutive_losses'', VInt current), (''limit'', VInt limit)] \<rparr>)"

definition check_trading_hours :: "GovernanceEngine \<Rightarrow> datetime \<Rightarrow> RuleEvaluation" where
  "check_trading_hours eng t =
     (let start = trading_hours_start (config eng);
          end_h = trading_hours_end (config eng);
          current_hour = hour_of t;
          ok = (start \<le> current_hour \<and> current_hour < end_h)
      in \<lparr> rule_id = ''trading_hours'',
           rule_name = ''Trading Hours Window'',
           rule_type = ''TIME_WINDOW'',
           passed = ok,
           reason = [Lit ''Current hour '', Fmt [] (VInt current_hour), Lit '' '',
                     Lit (if ok then ''within'' else ''outside''), Lit '' '',
                     Fmt [] (VInt start), Lit '':00-'', Fmt [] (VInt end_h), Lit '':00''],
           details = [(''current_hour'', VInt current_hour), (''start'', VInt start),
                      (''end'', VInt end_h)] \<rparr>)"

definition check_balance :: "GovernanceEngine \<Rightarrow> int \<Rightarrow> RuleEvaluation" where
  "check_balance eng cost =
     (let balance_cents = py_int (fl (current_balance (spend_tracker eng) * 100));
          ok = (cost \<le> balance_cents)
      in \<lparr> rule_id = ''sufficient_balance'',
           rule_name = ''Sufficient Balance'',
           rule_type = ''BALANCE_CHECK'',
           passed = ok,
           reason = [Lit ''Balance $'', Fmt ''.2f'' (VFloat (real_of_int balance_cents / 100)),
                     Lit '' '', Lit (if ok then ge_sign else ''<''), Lit '' cost $'',
                     Fmt ''.2f'' (VFloat (real_of_int cost / 100))],
           details = [(''balance_cents'', VInt balance_cents), (''cost_cents'', VInt cost)] \<rparr>)"

subsection \<open>Main evaluation pipeline\<close>

text \<open>
  Order parameters computed from the signal: price in cents, contracts, total cost.
  \<open>int(signal.current_price * 100)\<close> truncates the float product, and
  \<open>int(recommended_size * balance / max(current_price, 0.01))\<close> truncates the float quotient
  of the float product, \<open>0.01\<close> being a double.
\<close>

definition order_price_cents :: "PredictorSignal \<Rightarrow> int" where
  "order_price_cents sg = py_int (fl (current_price sg * 100))"

definition order_contracts :: "GovernanceEngine \<Rightarrow> PredictorSignal \<Rightarrow> int" where
  "order_contracts eng sg =
     max 1 (min (py_int (fl (fl (recommended_size sg * current_balance (spend_tracker eng))
                              / max (current_price sg) (fl (1 / 100)))))
                (max_position_contracts (config eng)))"

definition order_total_cost_cents :: "GovernanceEngine \<Rightarrow> PredictorSignal \<Rightarrow> int" where
  "order_total_cost_cents eng sg = order_price_cents sg * order_contracts eng sg"

definition build_order_request :: "GovernanceEngine \<Rightarrow> PredictorSignal \<Rightarrow> OrderRequest" where
  "build_order_request eng sg =
     \<lparr> ticker = market_slug sg,
       side = direction sg,
       action = ''buy'',
       count = order_contracts eng sg,
       order_type = ''limit'',
       price_key = direction sg @ ''_price'',
       price = order_price_cents sg,
       total_cost_cents = order_total_cost_cents eng sg,
       order_signal_id = signal_id sg \<rparr>"

text \<open>
  The battery of rules, in the order the engine appends them.  Only the drawdown check
  changes the engine, and the kill-switch check has read the flag before it.
\<close>

definition run_rules ::
  "GovernanceEngine \<Rightarrow> datetime \<Rightarrow> PredictorSignal \<Rightarrow> int \<Rightarrow> RuleEvaluation list \<times> GovernanceEngine"
where
  "run_rules eng t sg cost =
     (let e1 = check_kill_switch eng;
          (e2, eng2) = check_drawdown eng;
          e3 = check_consecutive_losses eng2;
          e4 = check_entry_quality eng2 sg;
          e5 = check_ars_score eng2 sg;
          e6 = check_conviction eng2 sg;
          e7 = check_per_trade_limit eng2 cost;
          e8 = check_daily_limit eng2 t cost;
          e9 = check_weekly_limit eng2 t cost;
          e10 = check_balance eng2 cost;
          e11 = check_trading_hours eng2 t
      in ([e1, e2, e3, e4, e5, e6, e7, e8, e9, e10, e11], eng2))"

definition determine_decision :: "RuleEvaluation list \<Rightarrow> GovernanceDecision" where
  "determine_decision evaluations =
     (let failed_rules = filter (\<lambda>e. \<not> passed e) evaluations;
          kill_switched = list_ex (\<lambda>e. rule_type e = ''KILL_SWITCH'' \<and> \<not> passed e) evaluations
      in if kill_switched then KILL_SWITCHED
         else if failed_rules \<noteq> [] then BLOCKED
         else APPROVED)"

definition evaluate_signal ::
  "GovernanceEngine \<Rightarrow> Env \<Rightarrow> PredictorSignal \<Rightarrow> GovernanceResult \<times> GovernanceEngine"
where
  "evaluate_signal eng env sg =
     (let eng1 = eng\<lparr> total_signals_processed := total_signals_processed eng + 1 \<rparr>;
          total = order_total_cost_cents eng1 sg;
          order = build_order_request eng1 sg;
          (evaluations, eng2) = run_rules eng1 (now env) sg total;
          dec = determine_decision evaluations;
          eng3 = (if dec = APPROVED
                  then eng2\<lparr> total_approved := total_approved eng2 + 1 \<rparr>
                  else eng2\<lparr> total_blocked := total_blocked eng2 + 1 \<rparr>);
          result = \<lparr> evaluation_id = fresh_uuid env,
                     signal = sg,
                     decision = dec,
                     rules_evaluated = evaluations,
                     order_request = (if dec = APPROVED then Some order else None),
                     execution_result = None,
                     wallet_state = get_state (spend_tracker eng3) (now env),
                     timestamp = now env,
                     latency_ms = measured_latency_ms env \<rparr>
      in (result,
          eng3\<lparr> audit_log := audit_log eng3 @ [EvaluationEntry (to_audit_entry result)] \<rparr>))"

text \<open>
  Executing a trade reads \<open>order_request["total_cost_cents"]\<close>; on a result that carries no
  order request the subscript raises TypeError.
\<close>

definition execute_approved_trade ::
  "GovernanceEngine \<Rightarrow> Env \<Rightarrow> GovernanceResult \<Rightarrow> py_error + (GovernanceResult \<times> GovernanceEngine)"
where
  "execute_approved_trade eng env result =
     (if decision result \<noteq> APPROVED then Inr (result, eng)
      else case order_request result of
             None \<Rightarrow> Inl TypeError
           | Some order \<Rightarrow>
               (let cost = total_cost_cents order;
                    eng1 = eng\<lparr> spend_tracker := record_trade (spend_tracker eng) (now env) cost 0 \<rparr>
                in Inr (result\<lparr> execution_result :=
                                   Some \<lparr> status = ''executed'', order_id = fresh_uuid env,
                                          filled_at = now env, cost_cents = cost \<rparr> \<rparr>,
                        eng1)))"

subsection \<open>Kill switch controls\<close>

definition activate_kill_switch :: "GovernanceEngine \<Rightarrow> Env \<Rightarrow> string \<Rightarrow> GovernanceEngine" where
  "activate_kill_switch eng env why =
     eng\<lparr> kill_switch_active := True,
          kill_switch_reason := [Lit why],
          audit_log := audit_log eng @
            [EventEntry (fresh_uuid env) (now env) ''KILL_SWITCH_ACTIVATED'' ''reason'' why] \<rparr>"

definition reset_kill_switch :: "GovernanceEngine \<Rightarrow> Env \<Rightarrow> string \<Rightarrow> GovernanceEngine" where
  "reset_kill_switch eng env authorized_by =
     eng\<lparr> kill_switch_active := False,
          kill_switch_reason := [],
          audit_log := audit_log eng @
            [EventEntry (fresh_uuid env) (now env) ''KILL_SWITCH_RESET'' ''authorized_by''
               authorized_by] \<rparr>"

text \<open>The conjunction of the eight checks that are not of type KILL_SWITCH.\<close>

definition filters_pass :: "GovernanceEngine \<Rightarrow> datetime \<Rightarrow> PredictorSignal \<Rightarrow> bool" where
  "filters_pass eng t sg =
     (let cost = order_total_cost_cents eng sg
      in entry_quality sg \<in> set (allowed_signal_strengths (config eng))
         \<and> min_ars_score (config eng) \<le> ars_score sg
         \<and> min_conviction (config eng) \<le> conviction sg
         \<and> cost \<le> max_per_trade_cents (config eng)
         \<and> get_daily_spend (spend_tracker eng) t + cost \<le> max_daily_spend_cents (config eng)
         \<and> get_weekly_spend (spend_tracker eng) t + cost \<le> max_weekly_spend_cents (config eng)
         \<and> cost \<le> py_int (fl (current_balance (spend_tracker eng) * 100))
         \<and> trading_hours_start (config eng) \<le> hour_of t
         \<and> hour_of t < trading_hours_end (config eng))"

subsection \<open>Sequences of calls on one engine\<close>

text \<open>
  The calls a client can make on an engine, and a run of them.  A run collects the
  decision of every evaluation.  An execution that raises leaves the engine as it was:
  the exception comes before the tracker is touched.
\<close>

datatype Operation =
  Evaluate Env PredictorSignal
| Execute Env GovernanceResult
| Activate Env string
| Reset Env string

fun is_reset :: "Operation \<Rightarrow> bool" where
  "is_reset (Reset _ _) = True"
| "is_reset _ = False"

fun apply_operation :: "GovernanceEngine \<Rightarrow> Operation \<Rightarrow> GovernanceDecision list \<times> GovernanceEngine" where
  "apply_operation eng (Evaluate env sg) =
     (let (r, eng') = evaluate_signal eng env sg in ([decision r], eng'))"
| "apply_operation eng (Execute env r) =
     (case execute_approved_trade eng env r of
        Inl _ \<Rightarrow> ([], eng)
      | Inr (_, eng') \<Rightarrow> ([], eng'))"
| "apply_operation eng (Activate env why) = ([], activate_kill_switch eng env why)"
| "apply_operation eng (Reset env who) = ([], reset_kill_switch eng env who)"

fun run_operations :: "GovernanceEngine \<Rightarrow> Operation list \<Rightarrow> GovernanceDecision list \<times> GovernanceEngine" where
  "run_operations eng [] = ([], eng)"
| "run_operations eng (x # xs) =
     (let (ds, eng') = apply_operation eng x;
          (ds', eng'') = run_operations eng' xs
      in (ds @ ds', eng''))"

subsection \<open>Concrete inputs\<close>

text \<open>
  The first and third signal of the demonstration in \<open>run_demo\<close>, a clock reading at noon,
  an engine whose balance has fallen a quarter below its peak, and a tracker that has
  recorded five losing trades.  The price and the recommended size of a signal enter float
  arithmetic and are the doubles that their literals denote; the other float fields are
  only compared, and are written as the decimals.
\<close>

definition demo_env :: Env where
  "demo_env = \<lparr> now = 43200, fresh_uuid = ''eval-1'', measured_latency_ms = 0 \<rparr>"

definition demo_signal :: PredictorSignal where
  "demo_signal =
     \<lparr> signal_id = ''sig_001'', market_slug = ''KXBTC-26FEB-B100K'',
       market_title = ''Bitcoin above $100k on Feb 28?'', direction = ''yes'',
       conviction = 35 / 100, num_traders = 7, total_size = 45000,
       avg_entry_price = 52 / 100, current_price = fl (58 / 100), expected_edge = 115 / 1000,
       entry_quality = ''good'', ars_score = 72 / 100, recommended_size = fl (4 / 100),
       traders = [''whale_01'', ''shark_02'', ''prof_03''], generated_at = [] \<rparr>"

definition late_signal :: PredictorSignal where
  "late_signal =
     \<lparr> signal_id = ''sig_003'', market_slug = ''KXAI-26FEB-GPT5'',
       market_title = ''GPT-5 released before March 2026?'', direction = ''yes'',
       conviction = 10 / 100, num_traders = 2, total_size = 12000,
       avg_entry_price = 15 / 100, current_price = fl (82 / 100), expected_edge = 447 / 100,
       entry_quality = ''very_late'', ars_score = 18 / 100, recommended_size = fl (1 / 100),
       traders = [''tech_bet_01''], generated_at = [] \<rparr>"

text \<open>A second call a minute later, with its own identifier and latency.\<close>

definition demo_env_again :: Env where
  "demo_env_again = \<lparr> now = 43260, fresh_uuid = ''eval-2'', measured_latency_ms = 1 / 100 \<rparr>"

definition drawdown_engine :: GovernanceEngine where
  "drawdown_engine =
     (new_engine None)\<lparr> spend_tracker :=
        (spend_tracker (new_engine None))\<lparr> current_balance := 375 \<rparr> \<rparr>"

definition losing_tracker :: SpendTracker where
  "losing_tracker =
     foldl (\<lambda>t i. record_trade t i 0 (- 1)) (spend_tracker (new_engine None))
       [43100, 43110, 43120, 43130, 43140]"

definition losing_engine :: GovernanceEngine where
  "losing_engine = (new_engine None)\<lparr> spend_tracker := losing_tracker \<rparr>"

section \<open>Adaptive Risk Stabilizer (stabilizer.py)\<close>

datatype MarketRegime = CALM | VOLATILE | TRENDING | CHOPPY

text \<open>
  The configuration after \<open>__post_init__\<close>, which replaces a missing table of regime
  adjustments by the default one.
\<close>

record ARSConfig =
  outlier_std_threshold :: real
  min_sample_size :: int
  consistency_lookback_days :: int
  min_trades_for_consistency :: int
  consistency_decay_rate :: real
  base_position_size :: real
  max_position_size :: real
  min_position_size :: real
  conviction_scaling :: real
  max_daily_drawdown :: real
  max_total_drawdown :: real
  drawdown_reduction_rate :: real
  volatility_lookback_periods :: int
  high_volatility_threshold :: real
  regime_position_adjustments :: "MarketRegime \<rightharpoonup> real"

definition default_regime_position_adjustments :: "MarketRegime \<rightharpoonup> real" where
  "default_regime_position_adjustments =
     [CALM \<mapsto> 1, VOLATILE \<mapsto> 1 / 2, TRENDING \<mapsto> 12 / 10, CHOPPY \<mapsto> 3 / 10]"

definition default_ars_config :: ARSConfig where
  "default_ars_config =
     \<lparr> outlier_std_threshold = 2,
       min_sample_size = 5,
       consistency_lookback_days = 90,
       min_trades_for_consistency = 20,
       consistency_decay_rate = 95 / 100,
       base_position_size = 5 / 100,
       max_position_size = 15 / 100,
       min_position_size = 1 / 100,
       conviction_scaling = 2,
       max_daily_drawdown = 10 / 100,
       max_total_drawdown = 25 / 100,
       drawdown_reduction_rate = 1 / 2,
       volatility_lookback_periods = 20,
       high_volatility_threshold = 3 / 10,
       regime_position_adjustments = default_regime_position_adjustments \<rparr>"

text \<open>
  The stabilizer's state.  Its two dictionaries \<open>price_history\<close> and \<open>trader_profiles\<close>
  are created empty and never read or written, and are left out.
\<close>

record AdaptiveRiskStabilizer =
  ars_config :: ARSConfig
  current_drawdown :: real
  daily_pnl :: real
  last_reset :: datetime

definition new_ars :: "ARSConfig option \<Rightarrow> datetime \<Rightarrow> AdaptiveRiskStabilizer" where
  "new_ars c t =
     \<lparr> ars_config = (case c of None \<Rightarrow> default_ars_config | Some c' \<Rightarrow> c'),
       current_drawdown = 0, daily_pnl = 0, last_reset = t \<rparr>"

definition create_ars :: "bool \<Rightarrow> bool \<Rightarrow> datetime \<Rightarrow> AdaptiveRiskStabilizer" where
  "create_ars conservative aggressive t =
     (if conservative
      then new_ars (Some (default_ars_config\<lparr> base_position_size := 3 / 100,
                                               max_position_size := 10 / 100,
                                               max_daily_drawdown := 5 / 100,
                                               max_total_drawdown := 15 / 100,
                                               conviction_scaling := 15 / 10 \<rparr>)) t
      else if aggressive
      then new_ars (Some (default_ars_config\<lparr> base_position_size := 8 / 100,
                                               max_position_size := 20 / 100,
                                               max_daily_drawdown := 15 / 100,
                                               max_total_drawdown := 35 / 100,
                                               conviction_scaling := 25 / 10 \<rparr>)) t
      else new_ars (Some default_ars_config) t)"

subsection \<open>Position sizing\<close>

text \<open>
  The only division is by \<open>max_total_drawdown\<close>, inside the drawdown branch; Python raises
  ZeroDivisionError when it is zero.
\<close>

definition calculate_position_size ::
  "AdaptiveRiskStabilizer \<Rightarrow> real \<Rightarrow> MarketRegime \<Rightarrow> real \<Rightarrow> py_error + real"
where
  "calculate_position_size ars conv regime current_exposure =
     (let cfg = ars_config ars;
          base = base_position_size cfg;
          conviction_adjusted = base * (1 + (conv - 1 / 2) * conviction_scaling cfg);
          regime_factor = (case regime_position_adjustments cfg regime of
                             None \<Rightarrow> 1 | Some f \<Rightarrow> f);
          regime_adjusted = conviction_adjusted * regime_factor;
          remaining_capacity = 1 - current_exposure;
          finish = (\<lambda>drawdown_factor.
                      max (min (min (regime_adjusted * drawdown_factor) remaining_capacity)
                               (max_position_size cfg))
                          (min_position_size cfg))
      in if max_daily_drawdown cfg / 2 < current_drawdown ars
         then if max_total_drawdown cfg = 0 then Inl ZeroDivisionError
              else Inr (finish (max (1 - current_drawdown ars / max_total_drawdown cfg)
                                    (drawdown_reduction_rate cfg)))
         else Inr (finish 1))"

subsection \<open>Regime detection\<close>

text \<open>The slice \<open>xs[-n:]\<close>: the last \<open>n\<close> elements for positive \<open>n\<close>, \<open>xs[|n|:]\<close> otherwise.\<close>

definition py_slice_last :: "int \<Rightarrow> 'a list \<Rightarrow> 'a list" where
  "py_slice_last n xs =
     (if 0 < n then drop (length xs - nat n) xs else drop (nat (- n)) xs)"

definition np_diff :: "real list \<Rightarrow> real list" where
  "np_diff xs = map (\<lambda>(a, b). b - a) (zip xs (tl xs))"

definition np_mean :: "real list \<Rightarrow> real" where
  "np_mean xs = sum_list xs / real (length xs)"

text \<open>
  \<open>np.std\<close> is the population standard deviation.  On an empty array it is NaN, and so is
  the quotient \<open>0 / 0\<close> of the choppiness; NaN is \<open>None\<close>, and every comparison with it is
  false.
\<close>

definition np_std :: "real list \<Rightarrow> real option" where
  "np_std xs =
     (if xs = [] then None
      else Some (sqrt (np_mean (map (\<lambda>x. (x - np_mean xs)\<^sup>2) xs))))"

definition nan_gt :: "real option \<Rightarrow> real \<Rightarrow> bool" where
  "nan_gt v c = (case v of None \<Rightarrow> False | Some x \<Rightarrow> c < x)"

definition nan_lt :: "real option \<Rightarrow> real \<Rightarrow> bool" where
  "nan_lt v c = (case v of None \<Rightarrow> False | Some x \<Rightarrow> x < c)"

definition simple_returns :: "real list \<Rightarrow> real list" where
  "simple_returns ps = map (\<lambda>(d, p). d / p) (zip (np_diff ps) (butlast ps))"

definition direction_changes :: "real list \<Rightarrow> nat" where
  "direction_changes rs = length (filter (\<lambda>d. d \<noteq> 0) (np_diff (map sgn rs)))"

definition choppiness_of :: "real list \<Rightarrow> real option" where
  "choppiness_of rs =
     (if rs = [] then None else Some (real (direction_changes rs) / real (length rs)))"

text \<open>
  Regime detection.  A window that is empty (possible only with a lookback that is not
  positive) makes \<open>prices[-1]\<close> raise IndexError.  A price of zero inside the window makes
  numpy divide by zero (infinities and NaN); the model follows the code only on windows
  without a zero price.
\<close>

definition detect_market_regime ::
  "AdaptiveRiskStabilizer \<Rightarrow> real list \<Rightarrow> py_error + MarketRegime"
where
  "detect_market_regime ars prices =
     (let cfg = ars_config ars
      in if int (length prices) < volatility_lookback_periods cfg then Inr CALM
         else
           (let window = py_slice_last (volatility_lookback_periods cfg) prices;
                returns = simple_returns window;
                volatility = np_std returns
            in if window = [] then Inl IndexError
               else
                 (let trend = (last window - hd window) / hd window;
                      trend_strength = \<bar>trend\<bar>;
                      choppiness = choppiness_of returns
                  in if nan_gt volatility (high_volatility_threshold cfg) then Inr VOLATILE
                     else if 1 / 10 < trend_strength \<and> nan_lt choppiness (3 / 10)
                     then Inr TRENDING
                     else if nan_gt choppiness (6 / 10) then Inr CHOPPY
                     else Inr CALM)))"

text \<open>
  Step 4 of \<open>process_signal\<close>: the regime is CALM unless a price history of at least ten
  points is given, and is detected from it otherwise.
\<close>

definition process_signal_regime ::
  "AdaptiveRiskStabilizer \<Rightarrow> real list option \<Rightarrow> py_error + MarketRegime"
where
  "process_signal_regime ars market_prices =
     (case market_prices of
        None \<Rightarrow> Inr CALM
      | Some ps \<Rightarrow> if ps \<noteq> [] \<and> 10 \<le> length ps then detect_market_regime ars ps
                  else Inr CALM)"

text \<open>
  The regime classification in the words of the specification, on a whole series:
  volatility is the standard deviation of the simple returns, the trend magnitude is
  \<open>|last - first| / first\<close>, and choppiness is the fraction of sign changes between
  consecutive returns.
\<close>

definition spec_returns :: "real list \<Rightarrow> real list" where
  "spec_returns ps = map (\<lambda>i. (ps ! Suc i - ps ! i) / ps ! i) [0..<length ps - 1]"

definition spec_volatility :: "real list \<Rightarrow> real" where
  "spec_volatility ps =
     (let rs = spec_returns ps; n = real (length rs); m = sum_list rs / n
      in sqrt ((\<Sum>r\<leftarrow>rs. (r - m)\<^sup>2) / n))"

definition spec_trend :: "real list \<Rightarrow> real" where
  "spec_trend ps = \<bar>last ps - hd ps\<bar> / hd ps"

definition spec_choppiness :: "real list \<Rightarrow> real" where
  "spec_choppiness ps =
     (let rs = spec_returns ps
      in real (length (filter (\<lambda>i. sgn (rs ! i) \<noteq> sgn (rs ! Suc i)) [0..<length rs - 1]))
         / real (length rs))"

definition spec_regime :: "real \<Rightarrow> real list \<Rightarrow> MarketRegime" where
  "spec_regime threshold ps =
     (if threshold < spec_volatility ps then VOLATILE
      else if 1 / 10 < spec_trend ps \<and> spec_choppiness ps < 3 / 10 then TRENDING
      else if 6 / 10 < spec_choppiness ps then CHOPPY
      else CALM)"

text \<open>A series of ten prices that doubles and halves in turn.\<close>

definition zigzag_prices :: "real list" where
  "zigzag_prices = [1, 2, 1, 2, 1, 2, 1, 2, 1, 2]"

text \<open>A stabilizer whose lookback is ten periods.\<close>

definition short_lookback_ars :: AdaptiveRiskStabilizer where
  "short_lookback_ars =
     new_ars (Some (default_ars_config\<lparr> volatility_lookback_periods := 10 \<rparr>)) 0"

section \<open>Consensus aggregation (signals.py)\<close>

text \<open>
  Fields that several classes of the source share carry a prefix here: \<open>pos_\<close> for a
  Position, \<open>ts_\<close> for a TraderScore and \<open>s_\<close> for the aggregator's Signal.
\<close>

record Position =
  pos_wallet :: string
  pos_market_slug :: string
  pos_market_title :: string
  outcome :: string
  pos_size :: real
  avg_price :: real
  pos_current_price :: real
  initial_value :: real
  current_value :: real
  pos_pnl :: real
  pnl_percent :: real

record TraderScore =
  ts_wallet :: string
  username :: string
  ts_pnl :: real
  volume :: real
  win_rate :: real
  consistency :: real
  final_score :: real

record Signal =
  s_market_slug :: string
  s_market_title :: string
  s_direction :: string
  s_conviction :: real
  s_num_traders :: int
  s_total_size :: real
  s_avg_entry_price :: real
  s_current_price :: real
  s_expected_edge :: real
  s_traders :: "string list"
  s_ars_score :: real
  s_recommended_size :: real
  s_entry_quality :: string

text \<open>
  The generator's state that aggregation reads.  \<open>positions\<close> is a dictionary from wallet
  to positions, kept as the list of its items in insertion order (its keys are distinct).
\<close>

record SignalGenerator =
  trader_scores :: "TraderScore list"
  positions :: "(string \<times> Position list) list"

type_synonym holding = "TraderScore \<times> Position"

type_synonym market_key = "string \<times> string"

text \<open>\<open>market_positions[key].append(h)\<close> on a \<open>defaultdict(list)\<close>, in insertion order.\<close>

fun append_holding ::
  "market_key \<Rightarrow> holding \<Rightarrow> (market_key \<times> holding list) list \<Rightarrow> (market_key \<times> holding list) list"
where
  "append_holding k h [] = [(k, [h])]"
| "append_holding k h ((k', hs) # rest) =
     (if k' = k then (k', hs @ [h]) # rest else (k', hs) # append_holding k h rest)"

definition position_key :: "Position \<Rightarrow> market_key" where
  "position_key p = (pos_market_slug p, outcome p)"

definition add_positions ::
  "TraderScore \<Rightarrow> Position list \<Rightarrow> (market_key \<times> holding list) list
     \<Rightarrow> (market_key \<times> holding list) list"
where
  "add_positions trader ps groups =
     foldl (\<lambda>g p. append_holding (position_key p) (trader, p) g) groups ps"

definition find_trader :: "TraderScore list \<Rightarrow> string \<Rightarrow> TraderScore option" where
  "find_trader scores w = List.find (\<lambda>t. ts_wallet t = w) scores"

definition group_positions :: "SignalGenerator \<Rightarrow> (market_key \<times> holding list) list" where
  "group_positions gen =
     foldl (\<lambda>g (w, ps). case find_trader (trader_scores gen) w of
                           None \<Rightarrow> g
                         | Some trader \<Rightarrow> add_positions trader ps g)
           [] (positions gen)"

text \<open>
  The signal of one group; \<open>None\<close> stands for \<open>continue\<close>.  The division by the number of
  wallets and the subscript \<open>holdings[0]\<close> are the places where Python can raise.
\<close>

definition make_signal ::
  "int \<Rightarrow> real \<Rightarrow> nat \<Rightarrow> market_key \<times> holding list \<Rightarrow> py_error + Signal option"
where
  "make_signal min_traders min_conv total_traders g =
     (let holdings = snd g;
          n = int (length holdings)
      in if n < min_traders then Inr None
         else if total_traders = 0 then Inl ZeroDivisionError
         else
           (let conv = real_of_int n / real total_traders
            in if conv < min_conv then Inr None
               else
                 (let tsize = (\<Sum>h\<leftarrow>holdings. current_value (snd h));
                      total_shares = (\<Sum>h\<leftarrow>holdings. pos_size (snd h));
                      avg_entry =
                        (if 0 < total_shares
                         then (\<Sum>h\<leftarrow>holdings. avg_price (snd h) * pos_size (snd h)) / total_shares
                         else 0)
                  in case holdings of
                       [] \<Rightarrow> Inl IndexError
                     | h0 # _ \<Rightarrow>
                         (let cur = pos_current_price (snd h0);
                              edge = (if 0 < avg_entry then (cur - avg_entry) / avg_entry else 0)
                          in Inr (Some \<lparr> s_market_slug = fst (fst g),
                                         s_market_title = pos_market_title (snd h0),
                                         s_direction = snd (fst g),
                                         s_conviction = conv,
                                         s_num_traders = n,
                                         s_total_size = tsize,
                                         s_avg_entry_price = avg_entry,
                                         s_current_price = cur,
                                         s_expected_edge = edge,
                                         s_traders = map (\<lambda>h. username (fst h)) holdings,
                                         s_ars_score = 0,
                                         s_recommended_size = 0,
                                         s_entry_quality = ''unknown'' \<rparr>)))))"

fun make_signals ::
  "int \<Rightarrow> real \<Rightarrow> nat \<Rightarrow> (market_key \<times> holding list) list \<Rightarrow> py_error + Signal list"
where
  "make_signals mt mc n [] = Inr []"
| "make_signals mt mc n (g # gs) =
     (case make_signal mt mc n g of
        Inl e \<Rightarrow> Inl e
      | Inr r \<Rightarrow>
          (case make_signals mt mc n gs of
             Inl e \<Rightarrow> Inl e
           | Inr rest \<Rightarrow> Inr (case r of None \<Rightarrow> rest | Some sg \<Rightarrow> sg # rest)))"

text \<open>
  \<open>sorted(signals, key=lambda x: (x.conviction, x.total_size), reverse=True)\<close>: a stable
  sort into descending order of the key, tuples compared lexicographically.
\<close>

definition key_less :: "real \<times> real \<Rightarrow> real \<times> real \<Rightarrow> bool" where
  "key_less a b = (fst a < fst b \<or> (fst a = fst b \<and> snd a < snd b))"

definition signal_key :: "Signal \<Rightarrow> real \<times> real" where
  "signal_key sg = (s_conviction sg, s_total_size sg)"

fun insert_desc :: "Signal \<Rightarrow> Signal list \<Rightarrow> Signal list" where
  "insert_desc x [] = [x]"
| "insert_desc x (y # ys) =
     (if key_less (signal_key y) (signal_key x) then x # y # ys else y # insert_desc x ys)"

definition sorted_desc :: "Signal list \<Rightarrow> Signal list" where
  "sorted_desc xs = foldl (\<lambda>acc x. insert_desc x acc) [] xs"

definition aggregate_signals :: "SignalGenerator \<Rightarrow> int \<Rightarrow> real \<Rightarrow> py_error + Signal list" where
  "aggregate_signals gen min_traders min_conv =
     (let market_positions = group_positions gen;
          total_traders = length (positions gen)
      in case make_signals min_traders min_conv total_traders market_positions of
           Inl e \<Rightarrow> Inl e
         | Inr signals \<Rightarrow> Inr (sorted_desc signals))"

text \<open>
  The holdings a group receives: one for each position with the group's key, over the
  wallets that have a trader score, counted with multiplicity.
\<close>

definition holdings_count :: "SignalGenerator \<Rightarrow> market_key \<Rightarrow> nat" where
  "holdings_count gen k =
     (\<Sum>(w, ps)\<leftarrow>positions gen.
        if find_trader (trader_scores gen) w = None then 0
        else length (filter (\<lambda>p. position_key p = k) ps))"

text \<open>The participants of a group: the scored wallets that hold a position with its key.\<close>

definition participants :: "SignalGenerator \<Rightarrow> market_key \<Rightarrow> string set" where
  "participants gen k =
     {w. \<exists>ps. (w, ps) \<in> set (positions gen) \<and> find_trader (trader_scores gen) w \<noteq> None
              \<and> (\<exists>p \<in> set ps. position_key p = k)}"

text \<open>No wallet lists two positions on the same market and outcome.\<close>

definition single_holdings :: "SignalGenerator \<Rightarrow> bool" where
  "single_holdings gen = (\<forall>(w, ps) \<in> set (positions gen). distinct (map position_key ps))"

text \<open>
  Bookkeeping for the proofs about grouping: the number of holdings a list of groups
  records under a key, one step of the loop over the wallets, and whether a wallet that
  has a trader score holds a position with a given key.
\<close>

definition group_count :: "(market_key \<times> holding list) list \<Rightarrow> market_key \<Rightarrow> nat" where
  "group_count gs k = (case map_of gs k of None \<Rightarrow> 0 | Some hs \<Rightarrow> length hs)"

definition group_step ::
  "TraderScore list \<Rightarrow> (market_key \<times> holding list) list \<Rightarrow> string \<times> Position list
     \<Rightarrow> (market_key \<times> holding list) list"
where
  "group_step scores g wp =
     (case find_trader scores (fst wp) of
        None \<Rightarrow> g
      | Some trader \<Rightarrow> add_positions trader (snd wp) g)"

definition holds_key :: "TraderScore list \<Rightarrow> market_key \<Rightarrow> string \<times> Position list \<Rightarrow> bool" where
  "holds_key sc k wp =
     (find_trader sc (fst wp) \<noteq> None \<and> (\<exists>p \<in> set (snd wp). position_key p = k))"

subsection \<open>Concrete inputs\<close>

text \<open>
  A position on one market and a scored trader, for a given wallet; a generator whose
  single wallet lists the same position twice; and a generator with three wallets, two of
  which hold the same outcome.
\<close>

definition sample_position :: "string \<Rightarrow> string \<Rightarrow> Position" where
  "sample_position w oc =
     \<lparr> pos_wallet = w, pos_market_slug = ''fed-rate-cut'',
       pos_market_title = ''Fed rate cut in March?'', outcome = oc, pos_size = 1000,
       avg_price = 1 / 2, pos_current_price = 6 / 10, initial_value = 500,
       current_value = 600, pos_pnl = 100, pnl_percent = 20 \<rparr>"

definition sample_trader :: "string \<Rightarrow> TraderScore" where
  "sample_trader w =
     \<lparr> ts_wallet = w, username = w, ts_pnl = 50000, volume = 400000, win_rate = 0,
       consistency = 1, final_score = 8 / 10 \<rparr>"

definition doubled_generator :: SignalGenerator where
  "doubled_generator =
     \<lparr> trader_scores = [sample_trader ''w1''],
       positions = [(''w1'', [sample_position ''w1'' ''Yes'', sample_position ''w1'' ''Yes''])] \<rparr>"

definition consensus_generator :: SignalGenerator where
  "consensus_generator =
     \<lparr> trader_scores = [sample_trader ''w1'', sample_trader ''w2'', sample_trader ''w3''],
       positions = [(''w1'', [sample_position ''w1'' ''Yes'']),
                    (''w2'', [sample_position ''w2'' ''Yes'']),
                    (''w3'', [sample_position ''w3'' ''No''])] \<rparr>"

section \<open>Rounding to doubles\<close>

lemma fl_eval:
  assumes "2 powr real_of_int k \<le> \<bar>x\<bar>" and "\<bar>x\<bar> < 2 powr real_of_int (k + 1)"
    and "- 1022 \<le> k"
  shows "fl x = real_of_int (py_round (x / 2 powr real_of_int (k - 52)))
                  * 2 powr real_of_int (k - 52)"
proof -
  have pos: "0 < \<bar>x\<bar>" using assms(1) by (smt (verit) powr_gt_zero)
  then have nz: "x \<noteq> 0" by simp
  have "\<lfloor>log 2 \<bar>x\<bar>\<rfloor> = k"
    using assms(1,2) pos by (simp add: floor_log_eq_powr_iff)
  then show ?thesis using nz assms(3) by (simp add: fl_def Let_def max_def)
qed

lemma two_powr_neg: "2 powr (- real n) = 1 / 2 ^ n"
  by (simp add: powr_minus_divide powr_realpow)

lemma fl_below_one:
  assumes "1 \<le> \<bar>x\<bar> * 2 ^ n" and "\<bar>x\<bar> * 2 ^ n < 2" and "n \<le> 1022"
  shows "fl x = real_of_int (py_round (x * 2 ^ (n + 52))) / 2 ^ (n + 52)"
proof -
  have a: "2 powr real_of_int (- int n) = 1 / 2 ^ n"
    using two_powr_neg[of n] by simp
  have b: "2 powr real_of_int (- int n + 1) = 2 / 2 ^ n"
    by (simp add: powr_diff powr_realpow)
  have "real_of_int (- int n - 52) = - real (n + 52)" by simp
  then have c: "2 powr real_of_int (- int n - 52) = 1 / 2 ^ (n + 52)"
    by (simp only: two_powr_neg)
  have lo: "2 powr real_of_int (- int n) \<le> \<bar>x\<bar>"
    unfolding a using assms(1) by (simp add: field_simps)
  have hi: "\<bar>x\<bar> < 2 powr real_of_int (- int n + 1)"
    unfolding b using assms(2) by (simp add: field_simps)
  have "- 1022 \<le> - int n" using assms(3) by simp
  from fl_eval[OF lo hi this]
  show ?thesis by (simp only: c) simp
qed

lemma fl_above_one:
  assumes "2 ^ n \<le> \<bar>x\<bar>" and "\<bar>x\<bar> < 2 * 2 ^ n" and "n \<le> 52"
  shows "fl x = real_of_int (py_round (x * 2 ^ (52 - n))) / 2 ^ (52 - n)"
proof -
  have a: "2 powr real_of_int (int n) = 2 ^ n" by (simp add: powr_realpow)
  have b: "2 powr real_of_int (int n + 1) = 2 * 2 ^ n"
    by (simp add: powr_add powr_realpow)
  have "real_of_int (int n - 52) = - real (52 - n)" using assms(3) by simp
  then have c: "2 powr real_of_int (int n - 52) = 1 / 2 ^ (52 - n)"
    by (simp only: two_powr_neg)
  have lo: "2 powr real_of_int (int n) \<le> \<bar>x\<bar>" using assms(1) by (simp only: a)
  have hi: "\<bar>x\<bar> < 2 powr real_of_int (int n + 1)" using assms(2) by (simp only: b)
  have "- 1022 \<le> int n" by simp
  from fl_eval[OF lo hi this]
  show ?thesis by (simp only: c) simp
qed

lemma fl_058: "fl (58 / 100) = 5224175567749775 / 9007199254740992"
  by (simp add: fl_below_one[where n = 1] py_round_def Let_def)

lemma fl_004: "fl (4 / 100) = 5764607523034235 / 144115188075855872"
  by (simp add: fl_below_one[where n = 5] py_round_def Let_def)

lemma fl_001: "fl (1 / 100) = 5764607523034235 / 576460752303423488"
  by (simp add: fl_below_one[where n = 7] py_round_def Let_def)

lemma fl_price_product:
  "fl (5224175567749775 / 9007199254740992 * 100) = 8162774324609023 / 140737488355328"
  by (simp add: fl_above_one[where n = 5] py_round_def Let_def)

lemma fl_size_product:
  "fl (5764607523034235 / 144115188075855872 * 500) = 20"
  by (simp add: fl_above_one[where n = 4] py_round_def Let_def)

lemma fl_quotient:
  "fl (20 / (5224175567749775 / 9007199254740992)) = 4853016839838897 / 140737488355328"
  by (simp add: fl_above_one[where n = 5] py_round_def Let_def)

lemma fl_50000: "fl 50000 = 50000"
  by (simp add: fl_above_one[where n = 15] py_round_def Let_def)

lemma price_cents_058: "py_int (fl (fl (58 / 100) * 100)) = 57"
  unfolding fl_058 fl_price_product by (simp add: py_int_def)

lemma max_price_058: "max (fl (58 / 100)) (fl (1 / 100)) = 5224175567749775 / 9007199254740992"
  unfolding fl_058 fl_001 by simp

lemma contracts_demo:
  "py_int (fl (fl (fl (4 / 100) * 500) / max (fl (58 / 100)) (fl (1 / 100)))) = 34"
  unfolding max_price_058 fl_004 fl_size_product fl_quotient by (simp add: py_int_def)

lemma round_058: "py_round (fl (fl (58 / 100) * 100)) = 58"
  unfolding fl_058 fl_price_product by (simp add: py_round_def Let_def)

section \<open>Properties of the governance engine\<close>

subsection \<open>What one evaluation returns and leaves behind\<close>

lemmas check_defs =
  check_kill_switch_def check_drawdown_def check_consecutive_losses_def
  check_entry_quality_def check_ars_score_def check_conviction_def
  check_per_trade_limit_def check_daily_limit_def check_weekly_limit_def
  check_balance_def check_trading_hours_def

lemma run_rules_ids:
  "map rule_id (fst (run_rules eng t sg c)) =
     [''kill_switch'', ''drawdown_monitor'', ''consecutive_losses'', ''entry_quality_filter'',
      ''ars_score_minimum'', ''conviction_minimum'', ''per_trade_limit'', ''daily_spend_limit'',
      ''weekly_spend_limit'', ''sufficient_balance'', ''trading_hours'']"
  by (simp add: run_rules_def Let_def split_beta check_defs)

lemma run_rules_types:
  "map rule_type (fst (run_rules eng t sg c)) =
     [''KILL_SWITCH'', ''KILL_SWITCH'', ''KILL_SWITCH'', ''SIGNAL_FILTER'', ''SIGNAL_FILTER'',
      ''SIGNAL_FILTER'', ''PER_TRANSACTION_LIMIT'', ''DAILY_LIMIT'', ''WEEKLY_LIMIT'',
      ''BALANCE_CHECK'', ''TIME_WINDOW'']"
  by (simp add: run_rules_def Let_def split_beta check_defs)

lemma run_rules_passed:
  "map passed (fst (run_rules eng t sg c)) =
     [\<not> kill_switch_active eng,
      get_drawdown (spend_tracker eng) < drawdown_kill_switch_pct (config eng),
      consecutive_losses (spend_tracker eng) < consecutive_loss_limit (config eng),
      entry_quality sg \<in> set (allowed_signal_strengths (config eng)),
      min_ars_score (config eng) \<le> ars_score sg,
      min_conviction (config eng) \<le> conviction sg,
      c \<le> max_per_trade_cents (config eng),
      get_daily_spend (spend_tracker eng) t + c \<le> max_daily_spend_cents (config eng),
      get_weekly_spend (spend_tracker eng) t + c \<le> max_weekly_spend_cents (config eng),
      c \<le> py_int (fl (current_balance (spend_tracker eng) * 100)),
      trading_hours_start (config eng) \<le> hour_of t \<and> hour_of t < trading_hours_end (config eng)]"
  by (simp add: run_rules_def Let_def split_beta check_defs)

lemma evaluate_rules:
  "rules_evaluated (fst (evaluate_signal eng env sg)) =
     fst (run_rules (eng\<lparr> total_signals_processed := total_signals_processed eng + 1 \<rparr>)
            (now env) sg (order_total_cost_cents eng sg))"
  by (simp add: evaluate_signal_def Let_def split_beta order_total_cost_cents_def
      order_contracts_def)

lemma evaluate_decision:
  "decision (fst (evaluate_signal eng env sg)) =
     determine_decision (rules_evaluated (fst (evaluate_signal eng env sg)))"
  by (simp add: evaluate_signal_def Let_def split_beta)

lemma evaluate_order:
  "order_request (fst (evaluate_signal eng env sg)) =
     (if decision (fst (evaluate_signal eng env sg)) = APPROVED
      then Some (build_order_request eng sg) else None)"
  by (simp add: evaluate_signal_def Let_def split_beta build_order_request_def
      order_total_cost_cents_def order_contracts_def)

lemma determine_decision_iff:
  "determine_decision es =
     (if (\<exists>e \<in> set es. rule_type e = ''KILL_SWITCH'' \<and> \<not> passed e) then KILL_SWITCHED
      else if (\<exists>e \<in> set es. \<not> passed e) then BLOCKED else APPROVED)"
  by (auto simp add: determine_decision_def Let_def list_ex_iff filter_empty_conv)

lemma evaluate_kill_switch_active:
  "kill_switch_active (snd (evaluate_signal eng env sg)) =
     (kill_switch_active eng \<or>
      drawdown_kill_switch_pct (config eng) \<le> get_drawdown (spend_tracker eng))"
  by (auto simp add: evaluate_signal_def Let_def split_beta run_rules_def check_drawdown_def)

lemma evaluate_spend_tracker:
  "spend_tracker (snd (evaluate_signal eng env sg)) = spend_tracker eng"
  by (simp add: evaluate_signal_def Let_def split_beta run_rules_def check_drawdown_def)

lemma evaluate_config:
  "config (snd (evaluate_signal eng env sg)) = config eng"
  by (simp add: evaluate_signal_def Let_def split_beta run_rules_def check_drawdown_def)

lemma evaluate_drawdown_rule:
  "rule_id (rules_evaluated (fst (evaluate_signal eng env sg)) ! 1) = ''drawdown_monitor''"
  "passed (rules_evaluated (fst (evaluate_signal eng env sg)) ! 1) =
     (get_drawdown (spend_tracker eng) < drawdown_kill_switch_pct (config eng))"
  by (simp_all add: evaluate_rules run_rules_def Let_def split_beta check_drawdown_def)

lemma evaluate_types:
  "map rule_type (rules_evaluated (fst (evaluate_signal eng env sg))) =
     [''KILL_SWITCH'', ''KILL_SWITCH'', ''KILL_SWITCH'', ''SIGNAL_FILTER'', ''SIGNAL_FILTER'',
      ''SIGNAL_FILTER'', ''PER_TRANSACTION_LIMIT'', ''DAILY_LIMIT'', ''WEEKLY_LIMIT'',
      ''BALANCE_CHECK'', ''TIME_WINDOW'']"
  by (simp only: evaluate_rules run_rules_types)

lemma evaluate_passed:
  "map passed (rules_evaluated (fst (evaluate_signal eng env sg))) =
     [\<not> kill_switch_active eng,
      get_drawdown (spend_tracker eng) < drawdown_kill_switch_pct (config eng),
      consecutive_losses (spend_tracker eng) < consecutive_loss_limit (config eng),
      entry_quality sg \<in> set (allowed_signal_strengths (config eng)),
      min_ars_score (config eng) \<le> ars_score sg,
      min_conviction (config eng) \<le> conviction sg,
      order_total_cost_cents eng sg \<le> max_per_trade_cents (config eng),
      get_daily_spend (spend_tracker eng) (now env) + order_total_cost_cents eng sg
        \<le> max_daily_spend_cents (config eng),
      get_weekly_spend (spend_tracker eng) (now env) + order_total_cost_cents eng sg
        \<le> max_weekly_spend_cents (config eng),
      order_total_cost_cents eng sg \<le> py_int (fl (current_balance (spend_tracker eng) * 100)),
      trading_hours_start (config eng) \<le> hour_of (now env)
        \<and> hour_of (now env) < trading_hours_end (config eng)]"
  unfolding evaluate_rules run_rules_passed by simp

lemma evaluate_entries:
  "rules_evaluated (fst (evaluate_signal eng env sg)) =
     [check_kill_switch eng,
      fst (check_drawdown eng),
      check_consecutive_losses eng,
      check_entry_quality eng sg,
      check_ars_score eng sg,
      check_conviction eng sg,
      check_per_trade_limit eng (order_total_cost_cents eng sg),
      check_daily_limit eng (now env) (order_total_cost_cents eng sg),
      check_weekly_limit eng (now env) (order_total_cost_cents eng sg),
      check_balance eng (order_total_cost_cents eng sg),
      check_trading_hours eng (now env)]"
  unfolding evaluate_rules
  by (simp add: run_rules_def Let_def split_beta check_defs)

text \<open>
  Claim C1.  Every call of \<open>evaluate_signal\<close> returns one result whose list of rule
  evaluations has exactly eleven entries, one for each rule of the battery and in its
  order: kill switch, drawdown, consecutive losses, entry quality, ARS score minimum,
  conviction minimum, per-trade cap, daily cap, weekly cap, sufficient balance, trading
  hours.  Each entry is the evaluation that its rule returns on the engine as the call
  found it, on the signal and on the total cost of the derived order; it carries the type
  of its rule and the verdict of that rule, so no rule is skipped, whatever the decision
  is; and the result is the one entry the call appends to the audit log.
\<close>

theorem evaluate_signal_runs_all_eleven_rules:
  "rules_evaluated (fst (evaluate_signal eng env sg)) =
     [check_kill_switch eng,
      fst (check_drawdown eng),
      check_consecutive_losses eng,
      check_entry_quality eng sg,
      check_ars_score eng sg,
      check_conviction eng sg,
      check_per_trade_limit eng (order_total_cost_cents eng sg),
      check_daily_limit eng (now env) (order_total_cost_cents eng sg),
      check_weekly_limit eng (now env) (order_total_cost_cents eng sg),
      check_balance eng (order_total_cost_cents eng sg),
      check_trading_hours eng (now env)]
   \<and> map rule_id (rules_evaluated (fst (evaluate_signal eng env sg))) =
     [''kill_switch'', ''drawdown_monitor'', ''consecutive_losses'', ''entry_quality_filter'',
      ''ars_score_minimum'', ''conviction_minimum'', ''per_trade_limit'', ''daily_spend_limit'',
      ''weekly_spend_limit'', ''sufficient_balance'', ''trading_hours'']
   \<and> map rule_type (rules_evaluated (fst (evaluate_signal eng env sg))) =
     [''KILL_SWITCH'', ''KILL_SWITCH'', ''KILL_SWITCH'', ''SIGNAL_FILTER'', ''SIGNAL_FILTER'',
      ''SIGNAL_FILTER'', ''PER_TRANSACTION_LIMIT'', ''DAILY_LIMIT'', ''WEEKLY_LIMIT'',
      ''BALANCE_CHECK'', ''TIME_WINDOW'']
   \<and> map passed (rules_evaluated (fst (evaluate_signal eng env sg))) =
     [\<not> kill_switch_active eng,
      get_drawdown (spend_tracker eng) < drawdown_kill_switch_pct (config eng),
      consecutive_losses (spend_tracker eng) < consecutive_loss_limit (config eng),
      entry_quality sg \<in> set (allowed_signal_strengths (config eng)),
      min_ars_score (config eng) \<le> ars_score sg,
      min_conviction (config eng) \<le> conviction sg,
      order_total_cost_cents eng sg \<le> max_per_trade_cents (config eng),
      get_daily_spend (spend_tracker eng) (now env) + order_total_cost_cents eng sg
        \<le> max_daily_spend_cents (config eng),
      get_weekly_spend (spend_tracker eng) (now env) + order_total_cost_cents eng sg
        \<le> max_weekly_spend_cents (config eng),
      order_total_cost_cents eng sg \<le> py_int (fl (current_balance (spend_tracker eng) * 100)),
      trading_hours_start (config eng) \<le> hour_of (now env)
        \<and> hour_of (now env) < trading_hours_end (config eng)]
   \<and> length (rules_evaluated (fst (evaluate_signal eng env sg))) = 11
   \<and> audit_log (snd (evaluate_signal eng env sg)) =
       audit_log eng @ [EvaluationEntry (to_audit_entry (fst (evaluate_signal eng env sg)))]"
proof -
  have ids: "map rule_id (rules_evaluated (fst (evaluate_signal eng env sg))) =
     [''kill_switch'', ''drawdown_monitor'', ''consecutive_losses'', ''entry_quality_filter'',
      ''ars_score_minimum'', ''conviction_minimum'', ''per_trade_limit'', ''daily_spend_limit'',
      ''weekly_spend_limit'', ''sufficient_balance'', ''trading_hours'']"
    by (simp only: evaluate_rules run_rules_ids)
  have "length (map rule_id (rules_evaluated (fst (evaluate_signal eng env sg)))) = 11"
    by (simp only: ids) simp
  then have len: "length (rules_evaluated (fst (evaluate_signal eng env sg))) = 11"
    by simp
  have log: "audit_log (snd (evaluate_signal eng env sg)) =
       audit_log eng @ [EvaluationEntry (to_audit_entry (fst (evaluate_signal eng env sg)))]"
    by (simp add: evaluate_signal_def Let_def split_beta run_rules_def check_drawdown_def)
  from evaluate_entries[of eng env sg] ids evaluate_types[of eng env sg]
    evaluate_passed[of eng env sg] len log
  show ?thesis by blast
qed

text \<open>
  Claim C2.  The decision of the result is \<open>KILL_SWITCHED\<close> if some rule evaluation of type
  KILL_SWITCH failed, otherwise \<open>BLOCKED\<close> if some rule evaluation failed, otherwise
  \<open>APPROVED\<close>; and the result carries an order request exactly when it is approved.
\<close>

theorem evaluate_signal_decision_rule:
  "decision (fst (evaluate_signal eng env sg)) =
     (if (\<exists>e \<in> set (rules_evaluated (fst (evaluate_signal eng env sg))).
            rule_type e = ''KILL_SWITCH'' \<and> \<not> passed e) then KILL_SWITCHED
      else if (\<exists>e \<in> set (rules_evaluated (fst (evaluate_signal eng env sg))). \<not> passed e)
      then BLOCKED else APPROVED)
   \<and> (order_request (fst (evaluate_signal eng env sg)) \<noteq> None
        \<longleftrightarrow> decision (fst (evaluate_signal eng env sg)) = APPROVED)"
  by (simp add: evaluate_decision determine_decision_iff evaluate_order)


subsection \<open>The demonstration signals on a fresh engine\<close>

lemma demo_signal_fields:
  "current_price demo_signal = fl (58 / 100)" "recommended_size demo_signal = fl (4 / 100)"
  "entry_quality demo_signal = ''good''" "ars_score demo_signal = 72 / 100"
  "conviction demo_signal = 35 / 100"
  by (simp_all add: demo_signal_def)

lemma late_signal_fields:
  "current_price late_signal = fl (82 / 100)" "recommended_size late_signal = fl (1 / 100)"
  "entry_quality late_signal = ''very_late''" "ars_score late_signal = 18 / 100"
  "conviction late_signal = 10 / 100"
  by (simp_all add: late_signal_def)

lemma demo_env_now: "now demo_env = 43200"
  by (simp add: demo_env_def)

lemma fresh_engine_facts:
  "\<not> kill_switch_active (new_engine None)" "config (new_engine None) = default_config"
  "current_balance (spend_tracker (new_engine None)) = 500"
  "peak_balance (spend_tracker (new_engine None)) = 500"
  "consecutive_losses (spend_tracker (new_engine None)) = 0"
  "transactions (spend_tracker (new_engine None)) = []"
  by (simp_all add: new_engine_def new_tracker_def default_config_def)

lemma demo_price_cents: "order_price_cents demo_signal = 57"
  unfolding order_price_cents_def demo_signal_fields by (rule price_cents_058)

lemma demo_contracts:
  assumes "current_balance (spend_tracker eng) = 500"
    and "max_position_contracts (config eng) = 50"
  shows "order_contracts eng demo_signal = 34"
  unfolding order_contracts_def demo_signal_fields assms contracts_demo by simp

lemma demo_cost:
  assumes "current_balance (spend_tracker eng) = 500"
    and "max_position_contracts (config eng) = 50"
  shows "order_total_cost_cents eng demo_signal = 1938"
  unfolding order_total_cost_cents_def demo_price_cents demo_contracts[OF assms] by simp

lemma fresh_demo_cost: "order_total_cost_cents (new_engine None) demo_signal = 1938"
  by (rule demo_cost) (simp_all add: fresh_engine_facts default_config_def)

lemma demo_passed:
  "map passed (rules_evaluated (fst (evaluate_signal (new_engine None) demo_env demo_signal)))
     = [True, True, True, True, True, True, True, True, True, True, True]"
  unfolding evaluate_passed fresh_demo_cost
  by (simp add: fresh_engine_facts demo_signal_fields demo_env_now get_drawdown_def
      get_daily_spend_def get_weekly_spend_def get_spend_since_def hour_of_def py_int_def fl_50000
      default_config_def)

lemma all_passed_iff: "(\<exists>e \<in> set es. \<not> passed e) \<longleftrightarrow> False \<in> set (map passed es)"
  by auto

lemma ks_failed_iff:
  "(\<exists>e \<in> set es. rule_type e = ''KILL_SWITCH'' \<and> \<not> passed e)
     \<longleftrightarrow> (''KILL_SWITCH'', False) \<in> set (zip (map rule_type es) (map passed es))"
  by (induction es) auto

theorem evaluate_signal_decision_rule_witness:
  "decision (fst (evaluate_signal (new_engine None) demo_env demo_signal)) = APPROVED
   \<and> order_request (fst (evaluate_signal (new_engine None) demo_env demo_signal)) \<noteq> None
   \<and> decision (fst (evaluate_signal (new_engine None) demo_env late_signal)) = BLOCKED
   \<and> order_request (fst (evaluate_signal (new_engine None) demo_env late_signal)) = None"
proof -
  let ?late = "rules_evaluated (fst (evaluate_signal (new_engine None) demo_env late_signal))"
  have a: "\<not> (\<exists>e \<in> set (rules_evaluated (fst (evaluate_signal (new_engine None) demo_env demo_signal))). \<not> passed e)"
    unfolding all_passed_iff demo_passed by simp
  have b: "\<exists>e \<in> set ?late. \<not> passed e"
    unfolding all_passed_iff evaluate_passed
    by (simp add: fresh_engine_facts late_signal_fields default_config_def)
  have c: "\<not> (\<exists>e \<in> set ?late. rule_type e = ''KILL_SWITCH'' \<and> \<not> passed e)"
    unfolding ks_failed_iff evaluate_types evaluate_passed
    by (simp add: fresh_engine_facts get_drawdown_def default_config_def)
  from a have a': "\<not> (\<exists>e \<in> set (rules_evaluated (fst (evaluate_signal (new_engine None) demo_env demo_signal))).
             rule_type e = ''KILL_SWITCH'' \<and> \<not> passed e)" by blast
  note t1 = evaluate_signal_decision_rule[of "new_engine None" demo_env demo_signal]
  note t2 = evaluate_signal_decision_rule[of "new_engine None" demo_env late_signal]
  have d1: "decision (fst (evaluate_signal (new_engine None) demo_env demo_signal)) = APPROVED"
    using t1[THEN conjunct1] by (simp only: a a' if_False)
  have d2: "decision (fst (evaluate_signal (new_engine None) demo_env late_signal)) = BLOCKED"
    using t2[THEN conjunct1] by (simp only: b c if_False if_True)
  have o1: "order_request (fst (evaluate_signal (new_engine None) demo_env demo_signal)) \<noteq> None"
    using t1[THEN conjunct2] d1 by blast
  have o2: "order_request (fst (evaluate_signal (new_engine None) demo_env late_signal)) = None"
    using t2[THEN conjunct2] d2 by auto
  from d1 d2 o1 o2 show ?thesis by blast
qed

subsection \<open>The kill switch\<close>

lemma run_rules_kill_switch:
  "kill_switch_active eng \<Longrightarrow> determine_decision (fst (run_rules eng t sg c)) = KILL_SWITCHED"
  by (simp add: determine_decision_def run_rules_def Let_def split_beta check_kill_switch_def)

lemma run_rules_drawdown:
  "drawdown_kill_switch_pct (config eng) \<le> get_drawdown (spend_tracker eng) \<Longrightarrow>
   determine_decision (fst (run_rules eng t sg c)) = KILL_SWITCHED"
  by (simp add: determine_decision_def run_rules_def Let_def split_beta check_kill_switch_def check_drawdown_def)

lemma run_rules_losses:
  "consecutive_loss_limit (config eng) \<le> consecutive_losses (spend_tracker eng) \<Longrightarrow>
   determine_decision (fst (run_rules eng t sg c)) = KILL_SWITCHED"
  by (simp add: determine_decision_def run_rules_def Let_def split_beta check_kill_switch_def check_drawdown_def check_consecutive_losses_def)

lemma evaluate_active_decision:
  "kill_switch_active eng \<Longrightarrow> decision (fst (evaluate_signal eng env sg)) = KILL_SWITCHED"
  by (simp add: evaluate_decision evaluate_rules run_rules_kill_switch)

lemma execute_kill_switch_active:
  "execute_approved_trade eng env r = Inr (r', eng') \<Longrightarrow> kill_switch_active eng' = kill_switch_active eng"
  by (auto simp add: execute_approved_trade_def Let_def split: if_splits option.splits)

lemma apply_operation_latched:
  "kill_switch_active eng \<Longrightarrow> \<not> is_reset x \<Longrightarrow>
   kill_switch_active (snd (apply_operation eng x)) \<and>
   (\<forall>d \<in> set (fst (apply_operation eng x)). d = KILL_SWITCHED)"
proof (cases x)
  case (Evaluate env sg)
  assume "kill_switch_active eng"
  then show ?thesis using Evaluate
    by (simp add: split_beta evaluate_active_decision evaluate_kill_switch_active)
next
  case (Execute env r)
  assume "kill_switch_active eng"
  then show ?thesis using Execute
    by (auto split: sum.splits dest: execute_kill_switch_active)
next
  case (Activate env why)
  then show ?thesis by (simp add: activate_kill_switch_def)
next
  case (Reset env who)
  assume "\<not> is_reset x"
  then show ?thesis using Reset by simp
qed

lemma run_operations_latched:
  "kill_switch_active eng \<Longrightarrow> \<forall>x \<in> set xs. \<not> is_reset x \<Longrightarrow>
   kill_switch_active (snd (run_operations eng xs)) \<and>
   (\<forall>d \<in> set (fst (run_operations eng xs)). d = KILL_SWITCHED)"
proof (induction xs arbitrary: eng)
  case Nil
  then show ?case by simp
next
  case (Cons x xs)
  from Cons.prems have step: "kill_switch_active (snd (apply_operation eng x))"
      "\<forall>d \<in> set (fst (apply_operation eng x)). d = KILL_SWITCHED"
    using apply_operation_latched[of eng x] by auto
  from Cons.prems have "\<forall>y \<in> set xs. \<not> is_reset y" by simp
  with Cons.IH[OF step(1)] have rest:
      "kill_switch_active (snd (run_operations (snd (apply_operation eng x)) xs))"
      "\<forall>d \<in> set (fst (run_operations (snd (apply_operation eng x)) xs)). d = KILL_SWITCHED"
    by auto
  show ?case using step(2) rest by (auto simp add: split_beta)
qed

text \<open>
  Claim C3.  The kill switch is latched.  From an engine whose kill switch is active, any
  run of calls without a reset leaves it active and every evaluation in the run decides
  \<open>KILL_SWITCHED\<close>.  A drawdown at or above the threshold makes the drawdown check (the
  second rule) fail, activates the kill switch and forces the decision \<open>KILL_SWITCHED\<close>,
  whatever the other checks say.  Explicit activation sets the latch and only the reset
  operation clears it.
\<close>

theorem kill_switch_latched:
  "(kill_switch_active eng \<and> (\<forall>x \<in> set xs. \<not> is_reset x) \<longrightarrow>
      kill_switch_active (snd (run_operations eng xs)) \<and>
      (\<forall>d \<in> set (fst (run_operations eng xs)). d = KILL_SWITCHED))
   \<and> (drawdown_kill_switch_pct (config eng) \<le> get_drawdown (spend_tracker eng) \<longrightarrow>
        rule_id (rules_evaluated (fst (evaluate_signal eng env sg)) ! 1) = ''drawdown_monitor'' \<and>
        \<not> passed (rules_evaluated (fst (evaluate_signal eng env sg)) ! 1) \<and>
        kill_switch_active (snd (evaluate_signal eng env sg)) \<and>
        decision (fst (evaluate_signal eng env sg)) = KILL_SWITCHED)
   \<and> kill_switch_active (activate_kill_switch eng env why)
   \<and> \<not> kill_switch_active (reset_kill_switch eng env who)"
proof -
  have a: "kill_switch_active eng \<and> (\<forall>x \<in> set xs. \<not> is_reset x) \<longrightarrow>
      kill_switch_active (snd (run_operations eng xs)) \<and>
      (\<forall>d \<in> set (fst (run_operations eng xs)). d = KILL_SWITCHED)"
    using run_operations_latched[of eng xs] by blast
  have b: "drawdown_kill_switch_pct (config eng) \<le> get_drawdown (spend_tracker eng) \<longrightarrow>
        rule_id (rules_evaluated (fst (evaluate_signal eng env sg)) ! 1) = ''drawdown_monitor'' \<and>
        \<not> passed (rules_evaluated (fst (evaluate_signal eng env sg)) ! 1) \<and>
        kill_switch_active (snd (evaluate_signal eng env sg)) \<and>
        decision (fst (evaluate_signal eng env sg)) = KILL_SWITCHED"
    using evaluate_drawdown_rule[of eng env sg]
    by (simp add: evaluate_kill_switch_active evaluate_decision evaluate_rules
        run_rules_drawdown)
  have c: "kill_switch_active (activate_kill_switch eng env why)"
    by (simp add: activate_kill_switch_def)
  have d: "\<not> kill_switch_active (reset_kill_switch eng env who)"
    by (simp add: reset_kill_switch_def)
  from a b c d show ?thesis by blast
qed

lemma drawdown_engine_drawdown: "get_drawdown (spend_tracker drawdown_engine) = 1 / 4"
  by (simp add: drawdown_engine_def new_engine_def new_tracker_def get_drawdown_def default_config_def)

lemma drawdown_engine_threshold: "drawdown_kill_switch_pct (config drawdown_engine) = 1 / 5"
  by (simp add: drawdown_engine_def new_engine_def default_config_def)

lemma drawdown_engine_inactive: "\<not> kill_switch_active drawdown_engine"
  by (simp add: drawdown_engine_def new_engine_def)

theorem kill_switch_latched_witness:
  "\<not> kill_switch_active drawdown_engine
   \<and> decision (fst (evaluate_signal drawdown_engine demo_env demo_signal)) = KILL_SWITCHED
   \<and> kill_switch_active (snd (evaluate_signal drawdown_engine demo_env demo_signal))
   \<and> fst (run_operations (snd (evaluate_signal drawdown_engine demo_env demo_signal))
        [Evaluate demo_env demo_signal, Evaluate demo_env late_signal])
       = [KILL_SWITCHED, KILL_SWITCHED]"
proof -
  let ?e1 = "snd (evaluate_signal drawdown_engine demo_env demo_signal)"
  let ?xs = "[Evaluate demo_env demo_signal, Evaluate demo_env late_signal]"
  have dd: "drawdown_kill_switch_pct (config drawdown_engine)
              \<le> get_drawdown (spend_tracker drawdown_engine)"
    by (simp add: drawdown_engine_drawdown drawdown_engine_threshold)
  from kill_switch_latched[of drawdown_engine "[]" demo_env demo_signal "[]" "[]"] dd
  have first: "kill_switch_active ?e1"
      "decision (fst (evaluate_signal drawdown_engine demo_env demo_signal)) = KILL_SWITCHED"
    by blast+
  have noreset: "\<forall>x \<in> set ?xs. \<not> is_reset x" by simp
  from kill_switch_latched[of ?e1 ?xs demo_env demo_signal "[]" "[]"] first(1) noreset
  have all: "\<forall>d \<in> set (fst (run_operations ?e1 ?xs)). d = KILL_SWITCHED" by blast
  have shape: "fst (run_operations ?e1 ?xs) =
      [decision (fst (evaluate_signal ?e1 demo_env demo_signal)),
       decision (fst (evaluate_signal (snd (evaluate_signal ?e1 demo_env demo_signal))
                        demo_env late_signal))]"
    by (simp add: split_beta)
  from all have "fst (run_operations ?e1 ?xs) = [KILL_SWITCHED, KILL_SWITCHED]"
    by (simp only: shape) simp
  with first drawdown_engine_inactive show ?thesis by blast
qed

subsection \<open>Consecutive losses\<close>

lemma evaluate_decision_char:
  "decision (fst (evaluate_signal eng env sg)) =
     (if kill_switch_active eng
         \<or> drawdown_kill_switch_pct (config eng) \<le> get_drawdown (spend_tracker eng)
         \<or> consecutive_loss_limit (config eng) \<le> consecutive_losses (spend_tracker eng)
      then KILL_SWITCHED
      else if filters_pass eng (now env) sg then APPROVED else BLOCKED)"
  unfolding evaluate_decision evaluate_rules
  by (simp add: determine_decision_def run_rules_def Let_def split_beta check_defs filters_pass_def)

lemma losing_tracker_eval:
  "consecutive_losses losing_tracker = 5" "current_balance losing_tracker = 500"
  "peak_balance losing_tracker = 500"
  "map amount_cents (transactions losing_tracker) = [0,0,0,0,0]"
  by (simp_all add: losing_tracker_def record_trade_def Let_def new_engine_def new_tracker_def default_config_def)

lemma evaluate_losses_rule:
  "rule_type (rules_evaluated (fst (evaluate_signal eng env sg)) ! 2) = ''KILL_SWITCH''"
  "passed (rules_evaluated (fst (evaluate_signal eng env sg)) ! 2) =
     (consecutive_losses (spend_tracker eng) < consecutive_loss_limit (config eng))"
  by (simp_all add: evaluate_rules run_rules_def Let_def split_beta check_defs)

lemma losing_engine_facts:
  "\<not> kill_switch_active losing_engine"
  "config losing_engine = default_config"
  "spend_tracker losing_engine = losing_tracker"
  by (simp_all add: losing_engine_def new_engine_def)

lemma recovered_facts:
  "consecutive_losses (record_trade losing_tracker 43150 0 0) = 0"
  "current_balance (record_trade losing_tracker 43150 0 0) = 500"
  "peak_balance (record_trade losing_tracker 43150 0 0) = 500"
  "map amount_cents (transactions (record_trade losing_tracker 43150 0 0)) = [0,0,0,0,0,0]"
  by (simp_all add: record_trade_def Let_def losing_tracker_eval)

lemma sum_zero_filter: "sum_list (map amount_cents (filter P xs)) = 0"
  if "\<forall>x \<in> set xs. amount_cents x = 0"
  using that by (induction xs) auto

lemma spend_zero:
  "set (map amount_cents (transactions t)) \<subseteq> {0} \<Longrightarrow> get_spend_since t s = 0"
  unfolding get_spend_since_def
  by (rule sum_zero_filter) auto

text \<open>
  Claim C10.  When the consecutive-loss counter is at or above the configured limit, an
  evaluation decides \<open>KILL_SWITCHED\<close>, since the failing consecutive-loss rule (the third
  rule) has type KILL_SWITCH.  That failure does not set the kill-switch flag: after the
  evaluation the flag is set only if it was set before or the drawdown reached its
  threshold.  So once the counter is below the limit again an evaluation can be approved
  without a reset, as on the engine with five recorded losses, where a further trade
  without a loss brings the counter back to zero.
\<close>

theorem consecutive_losses_kill_switched_not_latched:
  "(consecutive_loss_limit (config eng) \<le> consecutive_losses (spend_tracker eng) \<longrightarrow>
      decision (fst (evaluate_signal eng env sg)) = KILL_SWITCHED
      \<and> rule_type (rules_evaluated (fst (evaluate_signal eng env sg)) ! 2) = ''KILL_SWITCH''
      \<and> \<not> passed (rules_evaluated (fst (evaluate_signal eng env sg)) ! 2)
      \<and> (kill_switch_active (snd (evaluate_signal eng env sg)) \<longleftrightarrow>
           kill_switch_active eng \<or>
           drawdown_kill_switch_pct (config eng) \<le> get_drawdown (spend_tracker eng)))
   \<and> decision (fst (evaluate_signal losing_engine demo_env demo_signal)) = KILL_SWITCHED
   \<and> \<not> kill_switch_active (snd (evaluate_signal losing_engine demo_env demo_signal))
   \<and> decision (fst (evaluate_signal
        ((snd (evaluate_signal losing_engine demo_env demo_signal))
           \<lparr> spend_tracker := record_trade losing_tracker 43150 0 0 \<rparr>)
        demo_env demo_signal)) = APPROVED"
proof -
  let ?e1 = "snd (evaluate_signal losing_engine demo_env demo_signal)"
  let ?e2 = "?e1\<lparr> spend_tracker := record_trade losing_tracker 43150 0 0 \<rparr>"
  have gen: "consecutive_loss_limit (config eng) \<le> consecutive_losses (spend_tracker eng) \<longrightarrow>
      decision (fst (evaluate_signal eng env sg)) = KILL_SWITCHED
      \<and> rule_type (rules_evaluated (fst (evaluate_signal eng env sg)) ! 2) = ''KILL_SWITCH''
      \<and> \<not> passed (rules_evaluated (fst (evaluate_signal eng env sg)) ! 2)
      \<and> (kill_switch_active (snd (evaluate_signal eng env sg)) \<longleftrightarrow>
           kill_switch_active eng \<or>
           drawdown_kill_switch_pct (config eng) \<le> get_drawdown (spend_tracker eng))"
    using evaluate_losses_rule[of eng env sg]
    by (simp add: evaluate_decision_char evaluate_kill_switch_active)
  have dd: "get_drawdown losing_tracker = 0"
    by (simp add: get_drawdown_def losing_tracker_eval)
  have a: "decision (fst (evaluate_signal losing_engine demo_env demo_signal)) = KILL_SWITCHED"
    by (simp add: evaluate_decision_char losing_engine_facts losing_tracker_eval default_config_def)
  have b: "\<not> kill_switch_active ?e1"
    by (simp add: evaluate_kill_switch_active losing_engine_facts dd default_config_def)
  have e2: "kill_switch_active ?e2 = False" "config ?e2 = default_config"
      "spend_tracker ?e2 = record_trade losing_tracker 43150 0 0"
    using b by (simp_all add: evaluate_config losing_engine_facts)
  have dd2: "get_drawdown (record_trade losing_tracker 43150 0 0) = 0"
    by (simp add: get_drawdown_def recovered_facts)
  have sp: "get_spend_since (record_trade losing_tracker 43150 0 0) s = 0" for s
    by (rule spend_zero) (simp add: recovered_facts)
  have cost: "order_total_cost_cents ?e2 demo_signal = 1938"
    by (rule demo_cost) (simp_all add: e2 recovered_facts default_config_def)
  have fp: "filters_pass ?e2 (now demo_env) demo_signal"
    unfolding filters_pass_def Let_def cost
    by (simp add: e2 recovered_facts sp get_daily_spend_def get_weekly_spend_def
        default_config_def demo_signal_fields demo_env_now hour_of_def py_int_def fl_50000)
  have c: "decision (fst (evaluate_signal ?e2 demo_env demo_signal)) = APPROVED"
    by (simp add: evaluate_decision_char e2 dd2 recovered_facts fp) (simp add: default_config_def)
  from gen a b c show ?thesis by blast
qed

theorem consecutive_losses_kill_switched_not_latched_witness:
  "consecutive_loss_limit (config losing_engine) \<le> consecutive_losses (spend_tracker losing_engine)
   \<and> decision (fst (evaluate_signal losing_engine demo_env demo_signal)) = KILL_SWITCHED
   \<and> \<not> passed (rules_evaluated (fst (evaluate_signal losing_engine demo_env demo_signal)) ! 2)"
proof -
  have h: "consecutive_loss_limit (config losing_engine)
             \<le> consecutive_losses (spend_tracker losing_engine)"
    by (simp add: losing_engine_facts losing_tracker_eval default_config_def)
  with consecutive_losses_kill_switched_not_latched[of losing_engine demo_env demo_signal]
  show ?thesis by blast
qed

subsection \<open>Order request derivation\<close>

lemma demo_approved:
  "decision (fst (evaluate_signal (new_engine None) demo_env demo_signal)) = APPROVED"
proof -
  have fp: "filters_pass (new_engine None) (now demo_env) demo_signal"
    unfolding filters_pass_def Let_def fresh_demo_cost
    by (simp add: fresh_engine_facts demo_signal_fields get_daily_spend_def
        get_weekly_spend_def get_spend_since_def default_config_def demo_env_now hour_of_def
        py_int_def fl_50000)
  show ?thesis
    by (simp add: evaluate_decision_char fresh_engine_facts fp get_drawdown_def)
       (simp add: default_config_def)
qed

lemma late_blocked:
  "decision (fst (evaluate_signal (new_engine None) demo_env late_signal)) = BLOCKED"
proof -
  have fp: "\<not> filters_pass (new_engine None) (now demo_env) late_signal"
    unfolding filters_pass_def Let_def
    by (simp add: fresh_engine_facts late_signal_fields default_config_def)
  show ?thesis
    by (simp add: evaluate_decision_char fresh_engine_facts fp get_drawdown_def)
       (simp add: default_config_def)
qed

lemma demo_order:
  "order_request (fst (evaluate_signal (new_engine None) demo_env demo_signal)) =
     Some (build_order_request (new_engine None) demo_signal)"
  by (simp add: evaluate_order demo_approved)

text \<open>
  Claim C6.  The claim prices the order at \<open>round(current_price * 100)\<close>.  The code takes
  \<open>int\<close> of the float product, which truncates: for the first signal of the demonstration,
  at the price \<open>0.58\<close>, the float product is just below 58, so the approved order is priced
  at 57 cents and costs \<open>57 * 34 = 1938\<close> cents, where rounding the same product gives 58.
\<close>

theorem order_price_truncates_float_product:
  "current_price demo_signal = fl (58 / 100)
   \<and> fl (current_price demo_signal * 100) = 8162774324609023 / 140737488355328
   \<and> py_round (fl (current_price demo_signal * 100)) = 58
   \<and> map_option price
         (order_request (fst (evaluate_signal (new_engine None) demo_env demo_signal))) = Some 57
   \<and> map_option count
         (order_request (fst (evaluate_signal (new_engine None) demo_env demo_signal))) = Some 34
   \<and> map_option total_cost_cents
         (order_request (fst (evaluate_signal (new_engine None) demo_env demo_signal)))
       = Some 1938"
proof -
  have p: "fl (current_price demo_signal * 100) = 8162774324609023 / 140737488355328"
    unfolding demo_signal_fields fl_058 by (rule fl_price_product)
  have r: "py_round (fl (current_price demo_signal * 100)) = 58"
    unfolding demo_signal_fields by (rule round_058)
  have c: "order_contracts (new_engine None) demo_signal = 34"
    by (rule demo_contracts) (simp_all add: fresh_engine_facts default_config_def)
  show ?thesis
    using p r
    by (simp add: demo_order build_order_request_def demo_price_cents c fresh_demo_cost
        demo_signal_fields)
qed

subsection \<open>Recording an execution\<close>

text \<open>
  Claim C8, as amended.  \<open>execute_approved_trade\<close> on a result that is not approved raises
  nothing: it returns the result as it is and leaves the engine, and so the balance, the
  ledger and the consecutive-loss counter, unchanged.
\<close>

theorem execute_not_approved_is_noop:
  "decision r \<noteq> APPROVED \<Longrightarrow> execute_approved_trade eng env r = Inr (r, eng)"
  by (simp add: execute_approved_trade_def)

theorem execute_not_approved_is_noop_witness:
  "decision (fst (evaluate_signal (new_engine None) demo_env late_signal)) \<noteq> APPROVED
   \<and> execute_approved_trade (snd (evaluate_signal (new_engine None) demo_env late_signal)) demo_env
        (fst (evaluate_signal (new_engine None) demo_env late_signal))
      = Inr (fst (evaluate_signal (new_engine None) demo_env late_signal),
             snd (evaluate_signal (new_engine None) demo_env late_signal))"
proof -
  have h: "decision (fst (evaluate_signal (new_engine None) demo_env late_signal)) \<noteq> APPROVED"
    by (simp add: late_blocked)
  from execute_not_approved_is_noop[OF h] h show ?thesis by blast
qed

text \<open>
  The claim as stated fails: recording the blocked result of the late signal is accepted
  without an error.
\<close>

theorem execute_blocked_raises_nothing:
  "decision (fst (evaluate_signal (new_engine None) demo_env late_signal)) = BLOCKED
   \<and> \<not> isl (execute_approved_trade (snd (evaluate_signal (new_engine None) demo_env late_signal))
              demo_env (fst (evaluate_signal (new_engine None) demo_env late_signal)))"
  by (simp add: late_blocked execute_approved_trade_def)

subsection \<open>Evaluating a signal twice\<close>

lemma run_rules_tl_cong:
  assumes "config a = config b" and "spend_tracker a = spend_tracker b"
    and "get_daily_spend (spend_tracker b) t' = get_daily_spend (spend_tracker b) t"
    and "get_weekly_spend (spend_tracker b) t' = get_weekly_spend (spend_tracker b) t"
    and "hour_of t' = hour_of t"
  shows "tl (fst (run_rules a t' sg c)) = tl (fst (run_rules b t sg c))"
  using assms by (simp add: run_rules_def Let_def split_beta check_defs)

lemma run_rules_hd_cong:
  assumes "kill_switch_active a = kill_switch_active b"
    and "kill_switch_reason a = kill_switch_reason b"
  shows "hd (fst (run_rules a t' sg c)) = hd (fst (run_rules b t sg c))"
  using assms by (simp add: run_rules_def Let_def split_beta check_kill_switch_def)

lemma run_rules_nonempty: "fst (run_rules a t sg c) \<noteq> []"
  by (simp add: run_rules_def Let_def split_beta)

lemma order_total_cost_cong:
  "config a = config b \<Longrightarrow> spend_tracker a = spend_tracker b \<Longrightarrow>
   order_total_cost_cents a sg = order_total_cost_cents b sg"
  by (simp add: order_total_cost_cents_def order_contracts_def)

lemma filters_pass_cong:
  assumes "config a = config b" and "spend_tracker a = spend_tracker b"
    and "get_daily_spend (spend_tracker b) t' = get_daily_spend (spend_tracker b) t"
    and "get_weekly_spend (spend_tracker b) t' = get_weekly_spend (spend_tracker b) t"
    and "hour_of t' = hour_of t"
  shows "filters_pass a t' sg = filters_pass b t sg"
  unfolding filters_pass_def Let_def order_total_cost_cong[OF assms(1,2)]
  using assms by simp

lemma evaluate_kill_switch_reason:
  "kill_switch_active eng \<or>
     get_drawdown (spend_tracker eng) < drawdown_kill_switch_pct (config eng) \<Longrightarrow>
   kill_switch_reason (snd (evaluate_signal eng env sg)) = kill_switch_reason eng"
  by (auto simp add: evaluate_signal_def Let_def split_beta run_rules_def check_drawdown_def)

lemma evaluate_first_rule:
  "passed (hd (rules_evaluated (fst (evaluate_signal eng env sg)))) = (\<not> kill_switch_active eng)"
  by (simp add: evaluate_rules run_rules_def Let_def split_beta check_kill_switch_def)

text \<open>
  Claim C7, as amended.  Take two evaluations of the same signal in succession whose
  clock-dependent inputs read the same: the spend of the trailing day, the spend of the
  trailing week and the current hour.  The financial state is the same for both (an
  evaluation does not change it), the decisions are equal, and the rule evaluations are
  identical from the second rule on.  The kill-switch evaluation, the first rule, is
  identical too exactly when the first call does not latch the switch: when the switch is
  already active or the drawdown is below its threshold.
\<close>

theorem evaluate_twice:
  "get_daily_spend (spend_tracker eng) (now env') = get_daily_spend (spend_tracker eng) (now env)
   \<and> get_weekly_spend (spend_tracker eng) (now env')
       = get_weekly_spend (spend_tracker eng) (now env)
   \<and> hour_of (now env') = hour_of (now env) \<Longrightarrow>
   spend_tracker (snd (evaluate_signal eng env sg)) = spend_tracker eng
   \<and> decision (fst (evaluate_signal (snd (evaluate_signal eng env sg)) env' sg))
       = decision (fst (evaluate_signal eng env sg))
   \<and> tl (rules_evaluated (fst (evaluate_signal (snd (evaluate_signal eng env sg)) env' sg)))
       = tl (rules_evaluated (fst (evaluate_signal eng env sg)))
   \<and> (rules_evaluated (fst (evaluate_signal (snd (evaluate_signal eng env sg)) env' sg))
          = rules_evaluated (fst (evaluate_signal eng env sg))
        \<longleftrightarrow> kill_switch_active eng
             \<or> get_drawdown (spend_tracker eng) < drawdown_kill_switch_pct (config eng))"
proof -
  assume clock: "get_daily_spend (spend_tracker eng) (now env')
                   = get_daily_spend (spend_tracker eng) (now env)
   \<and> get_weekly_spend (spend_tracker eng) (now env')
       = get_weekly_spend (spend_tracker eng) (now env)
   \<and> hour_of (now env') = hour_of (now env)"
  let ?e1 = "snd (evaluate_signal eng env sg)"
  let ?a = "?e1\<lparr> total_signals_processed := total_signals_processed ?e1 + 1 \<rparr>"
  let ?b = "eng\<lparr> total_signals_processed := total_signals_processed eng + 1 \<rparr>"
  let ?r1 = "rules_evaluated (fst (evaluate_signal eng env sg))"
  let ?r2 = "rules_evaluated (fst (evaluate_signal ?e1 env' sg))"
  have cfg: "config ?a = config ?b" by (simp add: evaluate_config)
  have trk: "spend_tracker ?a = spend_tracker ?b" by (simp add: evaluate_spend_tracker)
  from clock have day: "get_daily_spend (spend_tracker ?b) (now env')
                          = get_daily_spend (spend_tracker ?b) (now env)"
    and week: "get_weekly_spend (spend_tracker ?b) (now env')
                 = get_weekly_spend (spend_tracker ?b) (now env)"
    and hour: "hour_of (now env') = hour_of (now env)"
    by simp_all
  have cost: "order_total_cost_cents ?e1 sg = order_total_cost_cents eng sg"
    by (rule order_total_cost_cong) (simp_all add: evaluate_config evaluate_spend_tracker)
  have tails: "tl ?r2 = tl ?r1"
    unfolding evaluate_rules cost by (rule run_rules_tl_cong[OF cfg trk day week hour])
  have fp: "filters_pass ?e1 (now env') sg = filters_pass eng (now env) sg"
    using clock
    by (intro filters_pass_cong) (simp_all add: evaluate_config evaluate_spend_tracker)
  have dec: "decision (fst (evaluate_signal ?e1 env' sg))
               = decision (fst (evaluate_signal eng env sg))"
    unfolding evaluate_decision_char fp
    by (simp add: evaluate_kill_switch_active evaluate_config evaluate_spend_tracker)
  have ne: "?r1 \<noteq> []" "?r2 \<noteq> []"
    unfolding evaluate_rules by (rule run_rules_nonempty)+
  have whole: "?r2 = ?r1"
    if quiet: "kill_switch_active eng \<or>
        get_drawdown (spend_tracker eng) < drawdown_kill_switch_pct (config eng)"
  proof -
    from quiet have act: "kill_switch_active ?a = kill_switch_active ?b"
      by (auto simp add: evaluate_kill_switch_active)
    from quiet have rsn: "kill_switch_reason ?a = kill_switch_reason ?b"
      by (simp add: evaluate_kill_switch_reason)
    have "hd ?r2 = hd ?r1"
      unfolding evaluate_rules cost by (rule run_rules_hd_cong[OF act rsn])
    with tails ne show ?thesis by (metis list.collapse)
  qed
  have differ: "?r2 \<noteq> ?r1"
    if loud: "\<not> (kill_switch_active eng \<or>
        get_drawdown (spend_tracker eng) < drawdown_kill_switch_pct (config eng))"
  proof -
    from loud have "kill_switch_active ?e1" by (simp add: evaluate_kill_switch_active)
    then have "\<not> passed (hd ?r2)" by (simp add: evaluate_first_rule)
    moreover from loud have "passed (hd ?r1)" by (simp add: evaluate_first_rule)
    ultimately show ?thesis by metis
  qed
  from whole differ have iff: "?r2 = ?r1 \<longleftrightarrow> kill_switch_active eng \<or>
        get_drawdown (spend_tracker eng) < drawdown_kill_switch_pct (config eng)"
    by blast
  from tails dec iff show ?thesis by (simp only: evaluate_spend_tracker simp_thms)
qed

theorem evaluate_twice_witness:
  "hour_of (now demo_env_again) = hour_of (now demo_env)
   \<and> get_daily_spend (spend_tracker (new_engine None)) (now demo_env_again)
       = get_daily_spend (spend_tracker (new_engine None)) (now demo_env)
   \<and> get_weekly_spend (spend_tracker (new_engine None)) (now demo_env_again)
       = get_weekly_spend (spend_tracker (new_engine None)) (now demo_env)
   \<and> decision (fst (evaluate_signal
          (snd (evaluate_signal (new_engine None) demo_env demo_signal))
          demo_env_again demo_signal))
       = decision (fst (evaluate_signal (new_engine None) demo_env demo_signal))
   \<and> rules_evaluated (fst (evaluate_signal
          (snd (evaluate_signal (new_engine None) demo_env demo_signal))
          demo_env_again demo_signal))
       = rules_evaluated (fst (evaluate_signal (new_engine None) demo_env demo_signal))"
proof -
  have q: "get_drawdown (spend_tracker (new_engine None))
             < drawdown_kill_switch_pct (config (new_engine None))"
    by (simp add: get_drawdown_def new_engine_def new_tracker_def default_config_def)
  have hour: "hour_of (now demo_env_again) = hour_of (now demo_env)"
    by (simp add: demo_env_again_def demo_env_def hour_of_def)
  have day: "get_daily_spend (spend_tracker (new_engine None)) (now demo_env_again)
       = get_daily_spend (spend_tracker (new_engine None)) (now demo_env)"
    by (simp add: get_daily_spend_def get_spend_since_def fresh_engine_facts)
  have week: "get_weekly_spend (spend_tracker (new_engine None)) (now demo_env_again)
       = get_weekly_spend (spend_tracker (new_engine None)) (now demo_env)"
    by (simp add: get_weekly_spend_def get_spend_since_def fresh_engine_facts)
  from day week hour have clock:
    "get_daily_spend (spend_tracker (new_engine None)) (now demo_env_again)
       = get_daily_spend (spend_tracker (new_engine None)) (now demo_env)
     \<and> get_weekly_spend (spend_tracker (new_engine None)) (now demo_env_again)
         = get_weekly_spend (spend_tracker (new_engine None)) (now demo_env)
     \<and> hour_of (now demo_env_again) = hour_of (now demo_env)"
    by blast
  from evaluate_twice[where env' = demo_env_again and env = demo_env
      and eng = "new_engine None" and sg = demo_signal, OF clock] q
  have "decision (fst (evaluate_signal
          (snd (evaluate_signal (new_engine None) demo_env demo_signal))
          demo_env_again demo_signal))
       = decision (fst (evaluate_signal (new_engine None) demo_env demo_signal))"
    and "rules_evaluated (fst (evaluate_signal
          (snd (evaluate_signal (new_engine None) demo_env demo_signal))
          demo_env_again demo_signal))
       = rules_evaluated (fst (evaluate_signal (new_engine None) demo_env demo_signal))"
    by blast+
  with hour day week show ?thesis by blast
qed

text \<open>
  The claim as stated fails: on the engine a quarter below its peak the first evaluation
  passes the kill-switch rule and sets the switch, so the second evaluation, on the same
  financial state and at the same clock reading, fails that rule.
\<close>

theorem evaluate_twice_differs:
  "spend_tracker (snd (evaluate_signal drawdown_engine demo_env demo_signal))
     = spend_tracker drawdown_engine
   \<and> rules_evaluated (fst (evaluate_signal (snd (evaluate_signal drawdown_engine demo_env demo_signal))
                            demo_env demo_signal))
       \<noteq> rules_evaluated (fst (evaluate_signal drawdown_engine demo_env demo_signal))"
proof -
  let ?e1 = "snd (evaluate_signal drawdown_engine demo_env demo_signal)"
  have act: "kill_switch_active ?e1"
    by (simp add: evaluate_kill_switch_active drawdown_engine_drawdown drawdown_engine_threshold)
  have p1: "passed (hd (rules_evaluated (fst (evaluate_signal drawdown_engine demo_env demo_signal))))"
    by (simp add: evaluate_first_rule drawdown_engine_inactive)
  have p2: "\<not> passed (hd (rules_evaluated (fst (evaluate_signal ?e1 demo_env demo_signal))))"
    using act by (simp add: evaluate_first_rule)
  from p1 p2 have "rules_evaluated (fst (evaluate_signal ?e1 demo_env demo_signal))
       \<noteq> rules_evaluated (fst (evaluate_signal drawdown_engine demo_env demo_signal))"
    by metis
  then show ?thesis by (simp add: evaluate_spend_tracker)
qed

section \<open>Properties of the stabilizer\<close>

subsection \<open>Position sizing\<close>

text \<open>
  Claim C4, as amended.  Unless the drawdown branch divides by a \<open>max_total_drawdown\<close> of
  zero, position sizing returns a size that is at least \<open>min_position_size\<close>; that is at most
  \<open>max_position_size\<close> when the minimum does not exceed the maximum; and that is at most the
  remaining capacity \<open>1 - current_exposure\<close> when the remaining capacity is at least the
  minimum.  The floor at the minimum is applied last.
\<close>

theorem position_size_bounds:
  "max_total_drawdown (ars_config ars) \<noteq> 0
     \<or> current_drawdown ars \<le> max_daily_drawdown (ars_config ars) / 2 \<Longrightarrow>
   \<exists>s. calculate_position_size ars conv regime exposure = Inr s
       \<and> min_position_size (ars_config ars) \<le> s
       \<and> (min_position_size (ars_config ars) \<le> max_position_size (ars_config ars)
            \<longrightarrow> s \<le> max_position_size (ars_config ars))
       \<and> (min_position_size (ars_config ars) \<le> 1 - exposure \<longrightarrow> s \<le> 1 - exposure)"
  by (auto simp add: calculate_position_size_def Let_def)

lemma default_ars_facts:
  "ars_config (create_ars False False t) = default_ars_config"
  "current_drawdown (create_ars False False t) = 0"
  by (simp_all add: create_ars_def new_ars_def)

text \<open>
  The claim as stated fails: with the default configuration and the portfolio fully
  exposed, the recommended size is the minimum of one percent, above the remaining
  capacity of zero.
\<close>

theorem position_size_exceeds_capacity:
  "calculate_position_size (create_ars False False 0) (1 / 2) CALM 1 = Inr (1 / 100)
   \<and> \<not> (1 / 100 \<le> 1 - (1::real))"
  by (simp add: calculate_position_size_def Let_def default_ars_facts default_ars_config_def
      default_regime_position_adjustments_def)

theorem position_size_bounds_witness:
  "max_total_drawdown (ars_config (create_ars False False 0)) = 25 / 100
   \<and> calculate_position_size (create_ars False False 0) (8 / 10) TRENDING (2 / 10)
       = Inr (96 / 1000)
   \<and> min_position_size (ars_config (create_ars False False 0)) \<le> 96 / 1000
   \<and> 96 / 1000 \<le> max_position_size (ars_config (create_ars False False 0))
   \<and> (96 / 1000 :: real) \<le> 1 - 2 / 10"
proof -
  have m: "max_total_drawdown (ars_config (create_ars False False 0)) = 25 / 100"
    by (simp add: default_ars_facts default_ars_config_def)
  then have h: "max_total_drawdown (ars_config (create_ars False False 0)) \<noteq> 0
     \<or> current_drawdown (create_ars False False 0)
          \<le> max_daily_drawdown (ars_config (create_ars False False 0)) / 2"
    by simp
  have v: "calculate_position_size (create_ars False False 0) (8 / 10) TRENDING (2 / 10)
             = Inr (96 / 1000)"
    by (simp add: calculate_position_size_def Let_def default_ars_facts default_ars_config_def
      default_regime_position_adjustments_def)
  from position_size_bounds[OF h, of "8 / 10" TRENDING "2 / 10"] v m show ?thesis
    by (simp add: default_ars_facts default_ars_config_def)
qed

subsection \<open>Regime detection\<close>

lemma zip_tl_nth:
  "zip xs (tl xs) = map (\<lambda>i. (xs ! i, xs ! Suc i)) [0..<length xs - 1]"
  by (rule nth_equalityI) (simp_all add: nth_tl)

lemma simple_returns_spec: "simple_returns ps = spec_returns ps"
  unfolding simple_returns_def spec_returns_def np_diff_def
  by (rule nth_equalityI) (simp_all add: nth_tl nth_butlast)

lemma length_spec_returns: "length (spec_returns ps) = length ps - 1"
  by (simp add: spec_returns_def)

lemma spec_returns_nonempty: "2 \<le> length ps \<Longrightarrow> spec_returns ps \<noteq> []"
proof
  assume "2 \<le> length ps" and "spec_returns ps = []"
  then have "length ps - 1 = 0" using length_spec_returns[of ps] by simp
  with \<open>2 \<le> length ps\<close> show False by arith
qed

lemma np_std_spec:
  "2 \<le> length ps \<Longrightarrow> np_std (simple_returns ps) = Some (spec_volatility ps)"
  using spec_returns_nonempty[of ps]
  by (simp add: np_std_def simple_returns_spec spec_volatility_def np_mean_def Let_def)

lemma np_diff_sgn:
  "np_diff (map sgn rs) = map (\<lambda>i. sgn (rs ! Suc i) - sgn (rs ! i)) [0..<length rs - 1]"
  unfolding np_diff_def by (rule nth_equalityI) (simp_all add: nth_tl)

lemma direction_changes_spec:
  "direction_changes rs =
     length (filter (\<lambda>i. sgn (rs ! i) \<noteq> sgn (rs ! Suc i)) [0..<length rs - 1])"
proof -
  have "(\<lambda>i. sgn (rs ! Suc i) - sgn (rs ! i) \<noteq> 0) = (\<lambda>i. sgn (rs ! i) \<noteq> sgn (rs ! Suc i))"
    by (rule ext) auto
  then show ?thesis
    by (simp only: direction_changes_def np_diff_sgn filter_map comp_def length_map)
qed

lemma choppiness_spec:
  "2 \<le> length ps \<Longrightarrow> choppiness_of (simple_returns ps) = Some (spec_choppiness ps)"
  using spec_returns_nonempty[of ps]
  by (simp add: choppiness_of_def simple_returns_spec spec_choppiness_def Let_def
      direction_changes_spec)

lemma trend_spec: "0 < hd w \<Longrightarrow> \<bar>(last w - hd w) / hd w\<bar> = spec_trend w"
  by (simp add: spec_trend_def abs_divide)

lemma classify_spec:
  assumes "2 \<le> length w" and "0 < hd w"
  shows "(if nan_gt (np_std (simple_returns w)) thr then Inr VOLATILE
          else if 1 / 10 < \<bar>(last w - hd w) / hd w\<bar> \<and> nan_lt (choppiness_of (simple_returns w)) (3 / 10)
          then Inr TRENDING
          else if nan_gt (choppiness_of (simple_returns w)) (6 / 10) then Inr CHOPPY
          else Inr CALM) = (Inr (spec_regime thr w) :: py_error + MarketRegime)"
  unfolding np_std_spec[OF assms(1)] choppiness_spec[OF assms(1)] trend_spec[OF assms(2)]
    nan_gt_def nan_lt_def spec_regime_def option.case
  by (simp only: if_distrib[of Inr])

lemma detect_short:
  "int (length prices) < volatility_lookback_periods (ars_config ars) \<Longrightarrow>
   detect_market_regime ars prices = Inr CALM"
  by (simp add: detect_market_regime_def)

lemma detect_long:
  assumes L: "2 \<le> volatility_lookback_periods (ars_config ars)"
    and n: "volatility_lookback_periods (ars_config ars) \<le> int (length prices)"
    and pos: "\<forall>p \<in> set (drop (length prices - nat (volatility_lookback_periods (ars_config ars))) prices). 0 < p"
  shows "detect_market_regime ars prices =
     Inr (spec_regime (high_volatility_threshold (ars_config ars))
            (drop (length prices - nat (volatility_lookback_periods (ars_config ars))) prices))"
proof -
  let ?L = "volatility_lookback_periods (ars_config ars)"
  let ?w = "drop (length prices - nat ?L) prices"
  have win: "py_slice_last ?L prices = ?w" using L by (simp add: py_slice_last_def)
  have len: "length ?w = nat ?L" using L n by simp
  then have two: "2 \<le> length ?w" using L by simp
  then have ne: "?w \<noteq> []" by auto
  then have "hd ?w \<in> set ?w" by (rule hd_in_set)
  with pos have hdpos: "0 < hd ?w" by blast
  have nlt: "(int (length prices) < ?L) = False" using n by simp
  have ne': "(?w = []) = False" using ne by simp
  have "detect_market_regime ars prices =
      (if nan_gt (np_std (simple_returns ?w)) (high_volatility_threshold (ars_config ars))
       then Inr VOLATILE
       else if 1 / 10 < \<bar>(last ?w - hd ?w) / hd ?w\<bar>
                \<and> nan_lt (choppiness_of (simple_returns ?w)) (3 / 10)
       then Inr TRENDING
       else if nan_gt (choppiness_of (simple_returns ?w)) (6 / 10) then Inr CHOPPY
       else Inr CALM)"
    unfolding detect_market_regime_def Let_def win by (simp only: nlt ne' if_False)
  also have "\<dots> = Inr (spec_regime (high_volatility_threshold (ars_config ars)) ?w)"
    by (rule classify_spec[OF two hdpos])
  finally show ?thesis .
qed

lemma zigzag_simple_returns:
  "simple_returns zigzag_prices = [1, - 1 / 2, 1, - 1 / 2, 1, - 1 / 2, 1, - 1 / 2, 1]"
  by (simp add: simple_returns_def np_diff_def zigzag_prices_def)

lemma zigzag_returns:
  "spec_returns zigzag_prices = [1, - 1 / 2, 1, - 1 / 2, 1, - 1 / 2, 1, - 1 / 2, 1]"
  by (simp only: simple_returns_spec[symmetric] zigzag_simple_returns)

lemma zigzag_variance:
  "(\<Sum>r\<leftarrow>[1, - 1 / 2, 1, - 1 / 2, 1, - 1 / 2, 1, - 1 / 2, 1 :: real]. (r - 1 / 3)\<^sup>2) = 5"
  by (simp add: power2_eq_square)

lemma zigzag_volatility: "3 / 10 < spec_volatility zigzag_prices"
proof -
  have m: "sum_list [1, - 1 / 2, 1, - 1 / 2, 1, - 1 / 2, 1, - 1 / 2, 1 :: real] / 9 = 1 / 3"
    by simp
  have n: "real (length [1, - 1 / 2, 1, - 1 / 2, 1, - 1 / 2, 1, - 1 / 2, 1 :: real]) = 9"
    by simp
  have "spec_volatility zigzag_prices = sqrt (5 / 9)"
    unfolding spec_volatility_def zigzag_returns Let_def n m zigzag_variance ..
  moreover have "(3 / 10 :: real) < sqrt (5 / 9)"
    by (rule real_less_rsqrt) (simp add: power2_eq_square)
  ultimately show ?thesis by simp
qed

lemma default_ars_cfg: "ars_config (create_ars False False 0) = default_ars_config"
  by (simp add: create_ars_def new_ars_def)

lemma default_lookback:
  "volatility_lookback_periods default_ars_config = 20"
  "high_volatility_threshold default_ars_config = 3 / 10"
  by (simp_all add: default_ars_config_def)

lemma zigzag_length: "length zigzag_prices = 10"
  by (simp add: zigzag_prices_def)

text \<open>
  The claim as stated fails: the ten-point series that doubles and halves in turn has a
  return volatility above the threshold, so the claim makes it VOLATILE, while the default
  stabilizer, whose lookback is twenty, reports CALM.
\<close>

theorem regime_of_ten_points_is_calm:
  "length zigzag_prices = 10
   \<and> spec_regime (high_volatility_threshold (ars_config (create_ars False False 0))) zigzag_prices
       = VOLATILE
   \<and> detect_market_regime (create_ars False False 0) zigzag_prices = Inr CALM
   \<and> process_signal_regime (create_ars False False 0) (Some zigzag_prices) = Inr CALM"
proof -
  have v: "spec_regime (high_volatility_threshold (ars_config (create_ars False False 0)))
             zigzag_prices = VOLATILE"
    unfolding default_ars_cfg default_lookback spec_regime_def
    using zigzag_volatility by (simp only: if_True)
  have d: "detect_market_regime (create_ars False False 0) zigzag_prices = Inr CALM"
    by (rule detect_short) (simp add: default_ars_cfg default_lookback zigzag_length)
  have ne: "zigzag_prices \<noteq> []" using zigzag_length by auto
  have p: "process_signal_regime (create_ars False False 0) (Some zigzag_prices) = Inr CALM"
    unfolding process_signal_regime_def using ne d by (simp add: zigzag_length)
  from zigzag_length v d p show ?thesis by blast
qed

text \<open>
  Claim C9, as amended.  Regime detection looks at the last \<open>volatility_lookback_periods\<close>
  prices (twenty by default), not at every series of ten or more.  A series shorter than
  the lookback is CALM.  On a series at least as long as the lookback (the lookback being
  at least two, the prices of the window positive), the regime is the classification of
  the specification applied to that window: VOLATILE when the volatility of the returns
  exceeds the threshold, else TRENDING when the trend magnitude exceeds 0.1 and choppiness
  is below 0.3, else CHOPPY when choppiness exceeds 0.6, else CALM.  Signal processing
  calls the detection only on a series of ten or more prices and takes CALM otherwise.
\<close>

theorem regime_detection:
  "(int (length prices) < volatility_lookback_periods (ars_config ars) \<longrightarrow>
      detect_market_regime ars prices = Inr CALM)
   \<and> (2 \<le> volatility_lookback_periods (ars_config ars)
        \<and> volatility_lookback_periods (ars_config ars) \<le> int (length prices)
        \<and> (\<forall>p \<in> set (drop (length prices - nat (volatility_lookback_periods (ars_config ars))) prices). 0 < p)
       \<longrightarrow> detect_market_regime ars prices =
             Inr (spec_regime (high_volatility_threshold (ars_config ars))
                   (drop (length prices - nat (volatility_lookback_periods (ars_config ars))) prices)))
   \<and> (length prices < 10 \<longrightarrow> process_signal_regime ars (Some prices) = Inr CALM)
   \<and> (10 \<le> length prices \<longrightarrow>
         process_signal_regime ars (Some prices) = detect_market_regime ars prices)
   \<and> process_signal_regime ars None = Inr CALM"
  using detect_short[of prices ars] detect_long[of ars prices]
  by (auto simp add: process_signal_regime_def)

lemma short_lookback_cfg:
  "volatility_lookback_periods (ars_config short_lookback_ars) = 10"
  "high_volatility_threshold (ars_config short_lookback_ars) = 3 / 10"
  by (simp_all add: short_lookback_ars_def new_ars_def default_ars_config_def)

lemma zigzag_positive: "\<forall>p \<in> set zigzag_prices. 0 < p"
  by (simp add: zigzag_prices_def)

theorem regime_detection_witness:
  "int (length zigzag_prices)
     < volatility_lookback_periods (ars_config (create_ars False False 0))
   \<and> detect_market_regime (create_ars False False 0) zigzag_prices = Inr CALM
   \<and> 2 \<le> volatility_lookback_periods (ars_config short_lookback_ars)
   \<and> volatility_lookback_periods (ars_config short_lookback_ars) \<le> int (length zigzag_prices)
   \<and> list_all (\<lambda>p. 0 < p) zigzag_prices
   \<and> detect_market_regime short_lookback_ars zigzag_prices = Inr VOLATILE
   \<and> process_signal_regime short_lookback_ars (Some zigzag_prices) = Inr VOLATILE"
proof -
  have h1: "int (length zigzag_prices)
     < volatility_lookback_periods (ars_config (create_ars False False 0))"
    by (simp add: default_ars_cfg default_lookback zigzag_length)
  from regime_detection[of zigzag_prices "create_ars False False 0"] h1
  have a: "detect_market_regime (create_ars False False 0) zigzag_prices = Inr CALM"
    by blast
  have w: "drop (length zigzag_prices
                  - nat (volatility_lookback_periods (ars_config short_lookback_ars)))
             zigzag_prices = zigzag_prices"
    by (simp add: short_lookback_cfg zigzag_length)
  have h2: "2 \<le> volatility_lookback_periods (ars_config short_lookback_ars)"
       "volatility_lookback_periods (ars_config short_lookback_ars) \<le> int (length zigzag_prices)"
    by (simp_all add: short_lookback_cfg zigzag_length)
  have h3: "\<forall>p \<in> set (drop (length zigzag_prices
                  - nat (volatility_lookback_periods (ars_config short_lookback_ars)))
             zigzag_prices). 0 < p"
    unfolding w by (rule zigzag_positive)
  from regime_detection[of zigzag_prices short_lookback_ars] h2 h3
  have "detect_market_regime short_lookback_ars zigzag_prices =
          Inr (spec_regime (high_volatility_threshold (ars_config short_lookback_ars))
                 (drop (length zigzag_prices
                         - nat (volatility_lookback_periods (ars_config short_lookback_ars)))
                    zigzag_prices))"
    by blast
  then have "detect_market_regime short_lookback_ars zigzag_prices =
          Inr (spec_regime (3 / 10) zigzag_prices)"
    unfolding w by (simp only: short_lookback_cfg)
  moreover have "spec_regime (3 / 10) zigzag_prices = VOLATILE"
    unfolding spec_regime_def using zigzag_volatility by (simp only: if_True)
  ultimately have b: "detect_market_regime short_lookback_ars zigzag_prices = Inr VOLATILE"
    by simp
  have "10 \<le> length zigzag_prices" by (simp add: zigzag_length)
  with regime_detection[of zigzag_prices short_lookback_ars] b
  have c: "process_signal_regime short_lookback_ars (Some zigzag_prices) = Inr VOLATILE"
    by simp
  have pos: "list_all (\<lambda>p. 0 < p) zigzag_prices"
    using zigzag_positive by (simp only: list_all_iff)
  from h1 a h2 pos b c show ?thesis by blast
qed

section \<open>Properties of the consensus aggregation\<close>

lemma append_holding_keys:
  "map fst (append_holding k h gs) =
     (if k \<in> set (map fst gs) then map fst gs else map fst gs @ [k])"
proof (induction gs)
  case Nil
  then show ?case by simp
next
  case (Cons g gs)
  obtain k' hs where g: "g = (k', hs)" by (cases g)
  show ?case using Cons.IH by (simp add: g)
qed

lemma append_holding_distinct:
  "distinct (map fst gs) \<Longrightarrow> distinct (map fst (append_holding k h gs))"
  by (simp add: append_holding_keys)

lemma append_holding_count:
  "group_count (append_holding k h gs) k' = group_count gs k' + (if k' = k then 1 else 0)"
  by (induction gs) (auto simp add: group_count_def)

lemma append_holding_nonempty:
  "\<forall>g \<in> set gs. snd g \<noteq> [] \<Longrightarrow> \<forall>g \<in> set (append_holding k h gs). snd g \<noteq> []"
proof (induction gs)
  case Nil
  then show ?case by simp
next
  case (Cons g gs)
  obtain k' hs where g: "g = (k', hs)" by (cases g)
  show ?case using Cons by (simp add: g)
qed

lemma add_positions_distinct:
  "distinct (map fst gs) \<Longrightarrow> distinct (map fst (add_positions tr ps gs))"
  unfolding add_positions_def
  by (induction ps arbitrary: gs) (simp_all add: append_holding_distinct)

lemma add_positions_nonempty:
  "\<forall>g \<in> set gs. snd g \<noteq> [] \<Longrightarrow> \<forall>g \<in> set (add_positions tr ps gs). snd g \<noteq> []"
  unfolding add_positions_def
proof (induction ps arbitrary: gs)
  case Nil
  then show ?case by simp
next
  case (Cons p ps)
  from Cons.prems have "\<forall>g \<in> set (append_holding (position_key p) (tr, p) gs). snd g \<noteq> []"
    by (rule append_holding_nonempty)
  then show ?case using Cons.IH by simp
qed

lemma add_positions_count:
  "group_count (add_positions tr ps gs) k =
     group_count gs k + length (filter (\<lambda>p. position_key p = k) ps)"
  unfolding add_positions_def
  by (induction ps arbitrary: gs) (simp_all add: append_holding_count)

lemma group_positions_fold:
  "group_positions gen = foldl (group_step (trader_scores gen)) [] (positions gen)"
proof -
  have "(\<lambda>g (w, ps). case find_trader (trader_scores gen) w of
                         None \<Rightarrow> g | Some trader \<Rightarrow> add_positions trader ps g)
        = group_step (trader_scores gen)"
    by (intro ext) (simp add: group_step_def split_beta)
  then show ?thesis by (simp add: group_positions_def)
qed

lemma group_step_distinct:
  "distinct (map fst g) \<Longrightarrow> distinct (map fst (group_step sc g wp))"
  by (simp add: group_step_def add_positions_distinct split: option.splits)

lemma group_step_nonempty:
  "\<forall>x \<in> set g. snd x \<noteq> [] \<Longrightarrow> \<forall>x \<in> set (group_step sc g wp). snd x \<noteq> []"
  using add_positions_nonempty[of g] by (simp add: group_step_def split: option.splits)

lemma group_step_count:
  "group_count (group_step sc g wp) k =
     group_count g k +
     (if find_trader sc (fst wp) = None then 0
      else length (filter (\<lambda>p. position_key p = k) (snd wp)))"
  by (simp add: group_step_def add_positions_count split: option.splits)

lemma fold_distinct:
  "distinct (map fst g) \<Longrightarrow> distinct (map fst (foldl (group_step sc) g ws))"
  by (induction ws arbitrary: g) (simp_all add: group_step_distinct)

lemma fold_nonempty:
  "\<forall>x \<in> set g. snd x \<noteq> [] \<Longrightarrow> \<forall>x \<in> set (foldl (group_step sc) g ws). snd x \<noteq> []"
proof (induction ws arbitrary: g)
  case Nil
  then show ?case by simp
next
  case (Cons wp ws)
  from Cons.prems have "\<forall>x \<in> set (group_step sc g wp). snd x \<noteq> []"
    by (rule group_step_nonempty)
  then show ?case using Cons.IH by simp
qed

lemma fold_count:
  "group_count (foldl (group_step sc) g ws) k =
     group_count g k +
     (\<Sum>wp\<leftarrow>ws. if find_trader sc (fst wp) = None then 0
               else length (filter (\<lambda>p. position_key p = k) (snd wp)))"
  by (induction ws arbitrary: g) (simp_all add: group_step_count)

lemma holdings_count_alt:
  "holdings_count gen k =
     (\<Sum>wp\<leftarrow>positions gen. if find_trader (trader_scores gen) (fst wp) = None then 0
               else length (filter (\<lambda>p. position_key p = k) (snd wp)))"
  unfolding holdings_count_def
  by (rule arg_cong[where f = sum_list]) (simp add: split_beta)

lemma group_positions_distinct: "distinct (map fst (group_positions gen))"
  unfolding group_positions_fold by (rule fold_distinct) simp

lemma group_positions_nonempty: "\<forall>x \<in> set (group_positions gen). snd x \<noteq> []"
  unfolding group_positions_fold by (rule fold_nonempty) simp

lemma group_positions_count:
  "group_count (group_positions gen) k = holdings_count gen k"
  unfolding group_positions_fold holdings_count_alt fold_count
  by (simp add: group_count_def)

lemma group_positions_member:
  "(k, hs) \<in> set (group_positions gen) \<Longrightarrow> length hs = holdings_count gen k \<and> hs \<noteq> []"
proof -
  assume m: "(k, hs) \<in> set (group_positions gen)"
  then have "map_of (group_positions gen) k = Some hs"
    using group_positions_distinct[of gen] by simp
  then have "group_count (group_positions gen) k = length hs"
    by (simp add: group_count_def)
  moreover from m group_positions_nonempty[of gen] have "hs \<noteq> []" by force
  ultimately show ?thesis by (simp add: group_positions_count)
qed

lemma group_positions_empty: "positions gen = [] \<Longrightarrow> group_positions gen = []"
  by (simp add: group_positions_fold)

lemma make_signal_ok:
  assumes "snd g \<noteq> []" and "0 < n"
  shows "\<exists>r. make_signal mt mc n g = Inr r \<and>
           (\<forall>s. r = Some s \<longrightarrow>
              s_market_slug s = fst (fst g) \<and> s_direction s = snd (fst g)
              \<and> s_num_traders s = int (length (snd g))
              \<and> s_conviction s = real (length (snd g)) / real n)"
proof -
  obtain h hs where hs: "snd g = h # hs" using assms(1) by (cases "snd g") auto
  show ?thesis using assms(2)
    by (simp add: make_signal_def Let_def hs)
qed

lemma make_signals_ok:
  assumes "\<forall>g \<in> set gs. snd g \<noteq> []" and "0 < n"
  shows "\<exists>sigs. make_signals mt mc n gs = Inr sigs \<and>
           (\<forall>s \<in> set sigs. \<exists>g \<in> set gs.
              s_market_slug s = fst (fst g) \<and> s_direction s = snd (fst g)
              \<and> s_num_traders s = int (length (snd g))
              \<and> s_conviction s = real (length (snd g)) / real n)"
  using assms(1)
proof (induction gs)
  case Nil
  then show ?case by simp
next
  case (Cons g gs)
  from Cons.prems have "snd g \<noteq> []" by simp
  from make_signal_ok[OF this assms(2), of mt mc]
  obtain r where r: "make_signal mt mc n g = Inr r"
    and rs: "\<forall>s. r = Some s \<longrightarrow>
              s_market_slug s = fst (fst g) \<and> s_direction s = snd (fst g)
              \<and> s_num_traders s = int (length (snd g))
              \<and> s_conviction s = real (length (snd g)) / real n"
    by blast
  from Cons obtain rest where rest: "make_signals mt mc n gs = Inr rest"
    and rests: "\<forall>s \<in> set rest. \<exists>g \<in> set gs.
              s_market_slug s = fst (fst g) \<and> s_direction s = snd (fst g)
              \<and> s_num_traders s = int (length (snd g))
              \<and> s_conviction s = real (length (snd g)) / real n"
    by auto
  show ?case
  proof (cases r)
    case None
    then show ?thesis using r rest rests by auto
  next
    case (Some s)
    then show ?thesis using r rest rests rs by auto
  qed
qed

lemma set_insert_desc: "set (insert_desc x ys) = insert x (set ys)"
  by (induction ys) auto

lemma set_foldl_insert_desc:
  "set (foldl (\<lambda>acc x. insert_desc x acc) acc xs) = set acc \<union> set xs"
  by (induction xs arbitrary: acc) (simp_all add: set_insert_desc)

lemma set_sorted_desc: "set (sorted_desc xs) = set xs"
  by (simp add: sorted_desc_def set_foldl_insert_desc)

lemma filter_key_length:
  "distinct (map position_key ps) \<Longrightarrow>
   length (filter (\<lambda>p. position_key p = k) ps) = (if \<exists>p \<in> set ps. position_key p = k then 1 else 0)"
  by (induction ps) (auto simp add: image_iff)

lemma sum_holdings_filter:
  "\<forall>wp \<in> set ws. distinct (map position_key (snd wp)) \<Longrightarrow>
   (\<Sum>wp\<leftarrow>ws. if find_trader sc (fst wp) = None then 0
              else length (filter (\<lambda>p. position_key p = k) (snd wp)))
     = length (filter (holds_key sc k) ws)"
  by (induction ws) (simp_all add: filter_key_length holds_key_def)

lemma participants_alt:
  "participants gen k = fst ` set (filter (holds_key (trader_scores gen) k) (positions gen))"
  unfolding participants_def holds_key_def by force

lemma single_holdings_alt:
  "single_holdings gen \<Longrightarrow> \<forall>wp \<in> set (positions gen). distinct (map position_key (snd wp))"
  unfolding single_holdings_def by force

lemma holdings_count_card:
  assumes "distinct (map fst (positions gen))" and "single_holdings gen"
  shows "holdings_count gen k = card (participants gen k)"
    and "holdings_count gen k \<le> length (positions gen)"
proof -
  let ?f = "filter (holds_key (trader_scores gen) k) (positions gen)"
  have hc: "holdings_count gen k = length ?f"
    unfolding holdings_count_alt
    by (rule sum_holdings_filter) (rule single_holdings_alt[OF assms(2)])
  have "distinct (map fst ?f)" using assms(1) by (rule distinct_map_filter)
  then have "card (set (map fst ?f)) = length (map fst ?f)" by (rule distinct_card)
  then have "card (participants gen k) = length ?f"
    by (simp add: participants_alt)
  with hc show "holdings_count gen k = card (participants gen k)" by simp
  from hc show "holdings_count gen k \<le> length (positions gen)" by simp
qed

lemma aggregate_returns:
  "\<exists>sigs. aggregate_signals gen mt mc = Inr sigs \<and>
     (\<forall>s \<in> set sigs.
        s_num_traders s = int (holdings_count gen (s_market_slug s, s_direction s))
        \<and> s_conviction s = real (holdings_count gen (s_market_slug s, s_direction s))
                             / real (length (positions gen)))"
proof (cases "positions gen = []")
  case True
  then show ?thesis
    by (simp add: aggregate_signals_def Let_def group_positions_empty sorted_desc_def)
next
  case False
  then have pos: "0 < length (positions gen)" by simp
  from make_signals_ok[OF group_positions_nonempty[of gen] pos, of mt mc]
  obtain sigs where sigs: "make_signals mt mc (length (positions gen)) (group_positions gen) = Inr sigs"
    and each: "\<forall>s \<in> set sigs. \<exists>g \<in> set (group_positions gen).
              s_market_slug s = fst (fst g) \<and> s_direction s = snd (fst g)
              \<and> s_num_traders s = int (length (snd g))
              \<and> s_conviction s = real (length (snd g)) / real (length (positions gen))"
    by blast
  have res: "aggregate_signals gen mt mc = Inr (sorted_desc sigs)"
    by (simp add: aggregate_signals_def Let_def sigs)
  have "s_num_traders s = int (holdings_count gen (s_market_slug s, s_direction s))
        \<and> s_conviction s = real (holdings_count gen (s_market_slug s, s_direction s))
                             / real (length (positions gen))"
    if "s \<in> set (sorted_desc sigs)" for s
  proof -
    from that have "s \<in> set sigs" by (simp add: set_sorted_desc)
    with each obtain g where g: "g \<in> set (group_positions gen)"
      and f: "s_market_slug s = fst (fst g)" "s_direction s = snd (fst g)"
        "s_num_traders s = int (length (snd g))"
        "s_conviction s = real (length (snd g)) / real (length (positions gen))"
      by blast
    obtain a b hs where gd: "g = ((a, b), hs)" by (cases g) auto
    from g have "((a, b), hs) \<in> set (group_positions gen)" by (simp only: gd)
    from group_positions_member[OF this]
    have len: "length hs = holdings_count gen (a, b)" by simp
    from f have "s_market_slug s = a" "s_direction s = b"
        "s_num_traders s = int (length hs)"
        "s_conviction s = real (length hs) / real (length (positions gen))"
      by (simp_all add: gd)
    then show ?thesis by (simp only: len)
  qed
  with res show ?thesis by blast
qed

text \<open>
  What aggregation does on every input: it always returns; each signal it emits counts the
  holdings of its (market, outcome) group, one for every position with that key listed
  under a wallet that has a trader score, and its conviction is that count divided by the
  number of wallets in the mapping.  When the wallets are distinct and no wallet lists two
  positions with the same market and outcome, the count is the number of participants of
  the group and the conviction is at most one, as the specification has it.
\<close>

theorem aggregate_conviction:
  "\<exists>sigs. aggregate_signals gen mt mc = Inr sigs \<and>
     (\<forall>s \<in> set sigs.
        s_num_traders s = int (holdings_count gen (s_market_slug s, s_direction s))
        \<and> s_conviction s = real (holdings_count gen (s_market_slug s, s_direction s))
                             / real (length (positions gen))
        \<and> 0 \<le> s_conviction s
        \<and> (distinct (map fst (positions gen)) \<and> single_holdings gen \<longrightarrow>
             holdings_count gen (s_market_slug s, s_direction s)
               = card (participants gen (s_market_slug s, s_direction s))
             \<and> s_conviction s \<le> 1))"
proof -
  from aggregate_returns[of gen mt mc]
  obtain sigs where res: "aggregate_signals gen mt mc = Inr sigs"
    and each: "\<forall>s \<in> set sigs.
        s_num_traders s = int (holdings_count gen (s_market_slug s, s_direction s))
        \<and> s_conviction s = real (holdings_count gen (s_market_slug s, s_direction s))
                             / real (length (positions gen))"
    by blast
  have "0 \<le> s_conviction s
        \<and> (distinct (map fst (positions gen)) \<and> single_holdings gen \<longrightarrow>
             holdings_count gen (s_market_slug s, s_direction s)
               = card (participants gen (s_market_slug s, s_direction s))
             \<and> s_conviction s \<le> 1)"
    if "s \<in> set sigs" for s
  proof -
    let ?k = "(s_market_slug s, s_direction s)"
    from each that have c: "s_conviction s = real (holdings_count gen ?k) / real (length (positions gen))"
      by blast
    then have nonneg: "0 \<le> s_conviction s" by simp
    have "holdings_count gen ?k = card (participants gen ?k) \<and> s_conviction s \<le> 1"
      if d: "distinct (map fst (positions gen))" and sh: "single_holdings gen"
    proof -
      from holdings_count_card[OF d sh, of ?k]
      have eq: "holdings_count gen ?k = card (participants gen ?k)"
        and le: "holdings_count gen ?k \<le> length (positions gen)" by blast+
      from le have "real (holdings_count gen ?k) / real (length (positions gen)) \<le> 1"
        by (simp add: divide_le_eq_1)
      with eq c show ?thesis by simp
    qed
    with nonneg show ?thesis by blast
  qed
  with res each show ?thesis by blast
qed

lemma doubled_groups:
  "group_positions doubled_generator =
     [((''fed-rate-cut'', ''Yes''),
       [(sample_trader ''w1'', sample_position ''w1'' ''Yes''),
        (sample_trader ''w1'', sample_position ''w1'' ''Yes'')])]"
  by (simp add: group_positions_def doubled_generator_def find_trader_def add_positions_def
      position_key_def sample_position_def sample_trader_def)

text \<open>
  Claim C5.  The claim takes the conviction of a signal to be the number of participants of
  its group over the number of participants considered, a value between 0 and 1.  The code
  counts holdings and never removes a repeated position: for a single wallet that lists
  the same market and outcome twice, the one signal emitted reports two traders out of one
  and a conviction of 2.
\<close>

theorem aggregate_conviction_above_one:
  "length (positions doubled_generator) = 1
   \<and> map_sum id (map s_num_traders) (aggregate_signals doubled_generator 2 (1 / 10)) = Inr [2]
   \<and> map_sum id (map s_conviction) (aggregate_signals doubled_generator 2 (1 / 10)) = Inr [2]"
proof -
  have n: "length (positions doubled_generator) = 1"
    by (simp add: doubled_generator_def)
  have "\<exists>s. aggregate_signals doubled_generator 2 (1 / 10) = Inr [s]
          \<and> s_num_traders s = 2 \<and> s_conviction s = 2"
    unfolding aggregate_signals_def Let_def doubled_groups n
    by (simp add: make_signal_def Let_def sorted_desc_def)
  with n show ?thesis by auto
qed

lemma consensus_groups:
  "group_positions consensus_generator =
     [((''fed-rate-cut'', ''Yes''),
       [(sample_trader ''w1'', sample_position ''w1'' ''Yes''),
        (sample_trader ''w2'', sample_position ''w2'' ''Yes'')]),
      ((''fed-rate-cut'', ''No''),
       [(sample_trader ''w3'', sample_position ''w3'' ''No'')])]"
  by (simp add: group_positions_def consensus_generator_def find_trader_def add_positions_def
      position_key_def sample_position_def sample_trader_def)

lemma consensus_result:
  "\<exists>s. aggregate_signals consensus_generator 2 (1 / 10) = Inr [s]
      \<and> s_market_slug s = ''fed-rate-cut'' \<and> s_direction s = ''Yes''"
proof -
  have n: "length (positions consensus_generator) = 3"
    by (simp add: consensus_generator_def)
  show ?thesis
    unfolding aggregate_signals_def Let_def consensus_groups n
    by (simp add: make_signal_def Let_def sorted_desc_def)
qed

lemma consensus_wellformed:
  "distinct (map fst (positions consensus_generator))"
  "list_all (\<lambda>wp. distinct (map position_key (snd wp))) (positions consensus_generator)"
  by (simp_all add: consensus_generator_def)

lemma consensus_count:
  "holdings_count consensus_generator (''fed-rate-cut'', ''Yes'') = 2"
  by (simp add: holdings_count_def consensus_generator_def find_trader_def position_key_def
      sample_position_def sample_trader_def)

theorem aggregate_conviction_witness:
  "distinct (map fst (positions consensus_generator))
   \<and> list_all (\<lambda>wp. distinct (map position_key (snd wp))) (positions consensus_generator)
   \<and> map_sum id (map s_conviction) (aggregate_signals consensus_generator 2 (1 / 10))
       = Inr [2 / 3]
   \<and> length (positions consensus_generator) = 3"
proof -
  have sh: "single_holdings consensus_generator"
    using consensus_wellformed(2) by (simp add: single_holdings_def list_all_iff split_beta)
  from consensus_result obtain s where
    res: "aggregate_signals consensus_generator 2 (1 / 10) = Inr [s]"
    and key: "s_market_slug s = ''fed-rate-cut''" "s_direction s = ''Yes''"
    by blast
  from aggregate_conviction[of consensus_generator 2 "1 / 10"]
  obtain sigs where out: "aggregate_signals consensus_generator 2 (1 / 10) = Inr sigs"
    and all: "\<forall>s \<in> set sigs.
        s_num_traders s = int (holdings_count consensus_generator (s_market_slug s, s_direction s))
        \<and> s_conviction s = real (holdings_count consensus_generator (s_market_slug s, s_direction s))
                             / real (length (positions consensus_generator))
        \<and> 0 \<le> s_conviction s
        \<and> (distinct (map fst (positions consensus_generator))
               \<and> single_holdings consensus_generator \<longrightarrow>
             holdings_count consensus_generator (s_market_slug s, s_direction s)
               = card (participants consensus_generator (s_market_slug s, s_direction s))
             \<and> s_conviction s \<le> 1)"
    by blast
  from out res have "s \<in> set sigs" by auto
  with all have each: "s_conviction s =
          real (holdings_count consensus_generator (s_market_slug s, s_direction s))
            / real (length (positions consensus_generator))
        \<and> (distinct (map fst (positions consensus_generator))
               \<and> single_holdings consensus_generator \<longrightarrow> s_conviction s \<le> 1)"
    by blast
  with consensus_wellformed(1) sh
  have "s_conviction s = real (holdings_count consensus_generator (s_market_slug s, s_direction s))
                           / real (length (positions consensus_generator))"
    and "s_conviction s \<le> 1"
    by blast+
  then have "s_conviction s = 2 / 3"
    by (simp add: key consensus_count) (simp add: consensus_generator_def)
  with res consensus_wellformed show ?thesis
    by (simp add: consensus_generator_def)
qed


end
